theory Spec2Isabelle
  imports Main "HOL-Library.Sublist"
begin

section \<open>Values of the scripting language\<close>

text \<open>
  A string is modelled by the bytes of its UTF-8 encoding. The program never indexes or
  measures a string: it trims it, tests it for emptiness, concatenates it and replaces
  five ASCII characters in it, and each of these acts on the encoding as it acts on the
  string.

  A value is what \<^verbatim>\<open>Response.json()\<close> can deliver, and \<open>JUndefined\<close> for the
  result of reading a property that is not there. Numbers are the integers, printed in
  decimal digits as the language prints the integers below \<open>10\<^sup>2\<^sup>1\<close>; fractions and
  the other doubles are outside the model. An object is the list of its own properties,
  read by the first binding of a key.
\<close>

datatype jsval =
    JUndefined
  | JNull
  | JBool bool
  | JNum int
  | JStr string
  | JArr "jsval list"
  | JObj "(string \<times> jsval) list"

text \<open>An exception value: the \<^verbatim>\<open>name\<close> and \<^verbatim>\<open>message\<close> of an Error object.\<close>

record js_error =
  name :: string
  message :: string

text \<open>\<^verbatim>\<open>new Error(msg)\<close>\<close>

definition Error :: "string \<Rightarrow> js_error" where
  "Error msg = \<lparr>name = ''Error'', message = msg\<rparr>"

text \<open>
  The texts of the exceptions that the engine itself raises differ between engines, so
  they are parameters: the message of the TypeError for reading a property of
  \<^verbatim>\<open>null\<close> (given the property's name) and of the TypeError for an object
  that has no primitive value.
\<close>

record engine =
  null_read_message :: "string \<Rightarrow> string"
  to_primitive_message :: string

definition TypeError :: "string \<Rightarrow> js_error" where
  "TypeError msg = \<lparr>name = ''TypeError'', message = msg\<rparr>"

text \<open>Truthiness, and \<^verbatim>\<open>a || b\<close>.\<close>

fun truthy :: "jsval \<Rightarrow> bool" where
  "truthy JUndefined = False"
| "truthy JNull = False"
| "truthy (JBool b) = b"
| "truthy (JNum n) = (n \<noteq> 0)"
| "truthy (JStr s) = (s \<noteq> [])"
| "truthy (JArr xs) = True"
| "truthy (JObj fs) = True"

definition js_or :: "jsval \<Rightarrow> jsval \<Rightarrow> jsval" where
  "js_or a b = (if truthy a then a else b)"

text \<open>
  Reading a property \<^verbatim>\<open>v.k\<close> of a value that is neither \<^verbatim>\<open>null\<close> nor
  \<^verbatim>\<open>undefined\<close>. An object gives its own property; the prototypes of objects,
  arrays, strings, numbers and booleans have none of the property names that the program
  reads, so every other read gives \<^verbatim>\<open>undefined\<close>.
\<close>

fun get :: "jsval \<Rightarrow> string \<Rightarrow> jsval" where
  "get (JObj fs) k = (case map_of fs k of Some v \<Rightarrow> v | None \<Rightarrow> JUndefined)"
| "get v k = JUndefined"

text \<open>Decimal digits of a natural number, and \<^verbatim>\<open>String(n)\<close> for an integer.\<close>

fun dec :: "nat \<Rightarrow> string" where
  "dec n = (if n < 10 then [''0123456789'' ! n]
            else dec (n div 10) @ [''0123456789'' ! (n mod 10)])"

declare dec.simps [simp del]

definition int_to_string :: "int \<Rightarrow> string" where
  "int_to_string n = (if n < 0 then ''-'' @ dec (nat (- n)) else dec (nat n))"

text \<open>
  \<^verbatim>\<open>String(v)\<close>. An array is joined with commas, \<^verbatim>\<open>null\<close> and
  \<^verbatim>\<open>undefined\<close> elements giving the empty string. An object that came from JSON
  has no callable \<^verbatim>\<open>toString\<close> of its own: it prints as \<^verbatim>\<open>[object Object]\<close>
  through the prototype, unless it has an own property \<^verbatim>\<open>toString\<close>, which hides the
  prototype's method and is not callable, and then the conversion throws a TypeError.
\<close>

fun to_string :: "engine \<Rightarrow> jsval \<Rightarrow> js_error + string"
and join :: "engine \<Rightarrow> jsval list \<Rightarrow> js_error + string"
and element_string :: "engine \<Rightarrow> jsval \<Rightarrow> js_error + string"
where
  "to_string eng JUndefined = Inr ''undefined''"
| "to_string eng JNull = Inr ''null''"
| "to_string eng (JBool b) = Inr (if b then ''true'' else ''false'')"
| "to_string eng (JNum n) = Inr (int_to_string n)"
| "to_string eng (JStr s) = Inr s"
| "to_string eng (JArr xs) = join eng xs"
| "to_string eng (JObj fs) =
     (if map_of fs ''toString'' \<noteq> None then Inl (TypeError (to_primitive_message eng))
      else Inr ''[object Object]'')"
| "join eng [] = Inr []"
| "join eng [x] = element_string eng x"
| "join eng (x # y # ys) =
     (case element_string eng x of
        Inl e \<Rightarrow> Inl e
      | Inr s \<Rightarrow> (case join eng (y # ys) of Inl e \<Rightarrow> Inl e | Inr t \<Rightarrow> Inr (s @ '','' @ t)))"
| "element_string eng JUndefined = Inr []"
| "element_string eng JNull = Inr []"
| "element_string eng (JBool b) = to_string eng (JBool b)"
| "element_string eng (JNum n) = to_string eng (JNum n)"
| "element_string eng (JStr s) = to_string eng (JStr s)"
| "element_string eng (JArr xs) = to_string eng (JArr xs)"
| "element_string eng (JObj fs) = to_string eng (JObj fs)"

text \<open>
  The values whose conversion cannot throw: no object with an own property
  \<^verbatim>\<open>toString\<close>, at the top or among the elements of an array.
\<close>

fun printable :: "jsval \<Rightarrow> bool" where
  "printable (JArr xs) = (\<forall>x \<in> set xs. printable x)"
| "printable (JObj fs) = (map_of fs ''toString'' = None)"
| "printable v = True"

section \<open>escapeHTML\<close>

text \<open>
  The character class \<^verbatim>\<open>/[&<>'"]/g\<close> and the object literal that maps a matched
  character to its entity. A property that the literal lacks would print as
  \<^verbatim>\<open>undefined\<close>.
\<close>

definition special :: "char \<Rightarrow> bool" where
  "special c = (c \<in> set (''&<>'' @ [CHR 0x27, CHR 0x22]))"

definition entities :: "(char \<times> string) list" where
  "entities =
     [(CHR ''&'', ''&amp;''),
      (CHR ''<'', ''&lt;''),
      (CHR ''>'', ''&gt;''),
      (CHR 0x22, ''&quot;''),
      (CHR 0x27, ''&#39;'')]"

definition replacement :: "char \<Rightarrow> string" where
  "replacement c = (case map_of entities c of Some e \<Rightarrow> e | None \<Rightarrow> ''undefined'')"

fun replace_special :: "string \<Rightarrow> string" where
  "replace_special [] = []"
| "replace_special (c # cs) =
     (if special c then replacement c else [c]) @ replace_special cs"

definition escapeHTML :: "engine \<Rightarrow> jsval \<Rightarrow> js_error + string" where
  "escapeHTML eng str =
     (case to_string eng (js_or str (JStr [])) of
        Inl e \<Rightarrow> Inl e
      | Inr s \<Rightarrow> Inr (replace_special s))"

section \<open>The platform: clock, abort signals, fetch, console, document\<close>

text \<open>
  Time is a clock in milliseconds. \<^verbatim>\<open>AbortSignal.timeout(ms)\<close> gives a signal that
  aborts \<open>ms\<close> milliseconds after its creation, with a DOMException named
  \<^verbatim>\<open>TimeoutError\<close>.
\<close>

record signal =
  created :: nat
  timeout :: nat

definition deadline :: "signal \<Rightarrow> nat" where
  "deadline sg = created sg + timeout sg"

text \<open>
  The second argument of \<^verbatim>\<open>fetch\<close>. A call that names no method is a GET.
\<close>

record init =
  init_method :: "string option"
  init_headers :: "(string \<times> string) list"
  init_body :: "string option"
  init_signal :: signal

definition request_method :: "init \<Rightarrow> string" where
  "request_method i = (case init_method i of None \<Rightarrow> ''GET'' | Some m \<Rightarrow> m)"

text \<open>
  A response: its status, and what its \<^verbatim>\<open>json()\<close> settles to, the parsed body or
  the exception of a body that is not JSON.
\<close>

record response =
  status :: nat
  json :: "js_error + jsval"

definition ok :: "response \<Rightarrow> bool" where
  "ok r = (200 \<le> status r \<and> status r \<le> 299)"

datatype net_outcome = Fails js_error | Responds response

text \<open>
  The network is the environment: for a request sent at a given time it fixes how long
  the answer takes and whether it is a response or a transport failure. The message of
  the timeout exception is the engine's.
\<close>

record network =
  serve :: "string \<Rightarrow> init \<Rightarrow> nat \<Rightarrow> nat \<times> net_outcome"
  timeout_message :: string

definition TimeoutError :: "network \<Rightarrow> js_error" where
  "TimeoutError net = \<lparr>name = ''TimeoutError'', message = timeout_message net\<rparr>"

text \<open>
  What \<^verbatim>\<open>await fetch(url, init)\<close> called at time \<open>now\<close> settles to, and when.
  A signal that has already aborted rejects the call at once; a signal that aborts
  before the answer is there rejects it at the deadline.
\<close>

definition settle :: "network \<Rightarrow> string \<Rightarrow> init \<Rightarrow> nat \<Rightarrow> (js_error + response) \<times> nat" where
  "settle net url i now =
     (let d = deadline (init_signal i) in
      if d \<le> now then (Inl (TimeoutError net), now)
      else
        (case serve net url i now of
           (latency, out) \<Rightarrow>
             if d \<le> now + latency then (Inl (TimeoutError net), d)
             else ((case out of Fails e \<Rightarrow> Inl e | Responds r \<Rightarrow> Inr r), now + latency)))"

text \<open>The content of the output element: set as text or as markup.\<close>

datatype content = TextContent string | InnerHTML string

record fetch_call =
  call_url :: string
  call_init :: init
  call_time :: nat

text \<open>
  The state: the clock, the value of the input field \<^verbatim>\<open>hostInput\<close>, the content of
  \<^verbatim>\<open>resultDiv\<close>, the lines written with \<^verbatim>\<open>console.error\<close> (the arguments of
  each call), the signals created and the calls of \<^verbatim>\<open>fetch\<close> made, each in order.
\<close>

record world =
  clock :: nat
  hostInput :: string
  resultDiv :: content
  console :: "string list list"
  signals :: "signal list"
  fetch_calls :: "fetch_call list"

definition AbortSignal_timeout :: "nat \<Rightarrow> world \<Rightarrow> signal \<times> world" where
  "AbortSignal_timeout ms w =
     (let sg = \<lparr>created = clock w, timeout = ms\<rparr>
      in (sg, w\<lparr>signals := signals w @ [sg]\<rparr>))"

definition fetch :: "network \<Rightarrow> string \<Rightarrow> init \<Rightarrow> world \<Rightarrow> (js_error + response) \<times> world" where
  "fetch net url i w =
     (case settle net url i (clock w) of
        (r, t) \<Rightarrow>
          (r, w\<lparr>clock := t,
                fetch_calls :=
                  fetch_calls w @ [\<lparr>call_url = url, call_init = i, call_time = clock w\<rparr>]\<rparr>))"

definition console_error :: "string list \<Rightarrow> world \<Rightarrow> world" where
  "console_error args w = w\<lparr>console := console w @ [args]\<rparr>"

section \<open>getMeta\<close>

definition metaUrl :: "string \<Rightarrow> string" where
  "metaUrl host = ''https://'' @ host @ ''/api/meta''"

definition post_init :: "signal \<Rightarrow> init" where
  "post_init sg =
     \<lparr>init_method = Some ''POST'',
      init_headers = [(''Content-Type'', ''application/json'')],
      init_body = Some ''{}'',
      init_signal = sg\<rparr>"

definition get_init :: "signal \<Rightarrow> init" where
  "get_init sg =
     \<lparr>init_method = None, init_headers = [], init_body = None, init_signal = sg\<rparr>"

text \<open>The handler of the POST attempt: it writes one line and lets the function go on.\<close>

definition catch_post :: "string \<Rightarrow> js_error \<Rightarrow> world \<Rightarrow> world" where
  "catch_post host e w =
     (if name e = ''AbortError''
      then console_error [''POST attempt timed out for '' @ host] w
      else console_error [''POST attempt failed for '' @ host @ '': '' @ message e] w)"

text \<open>The second attempt, from the GET call to the end of the function.\<close>

definition get_attempt :: "network \<Rightarrow> string \<Rightarrow> signal \<Rightarrow> world \<Rightarrow> (js_error + jsval) \<times> world" where
  "get_attempt net url sg w =
     (case fetch net url (get_init sg) w of
        (Inl e, w') \<Rightarrow> (Inl e, w')
      | (Inr respGet, w') \<Rightarrow>
          if \<not> ok respGet
          then (Inl (Error (''GET failed ('' @ dec (status respGet) @ '')'')), w')
          else (json respGet, w'))"

text \<open>
  \<^verbatim>\<open>getMeta(host)\<close>. The result is \<open>Inl\<close> for a rejected promise. The successful POST
  returns the promise of \<^verbatim>\<open>respPost.json()\<close> without awaiting it, so its rejection is
  the function's and does not reach the handler.
\<close>

definition getMeta :: "network \<Rightarrow> string \<Rightarrow> world \<Rightarrow> (js_error + jsval) \<times> world" where
  "getMeta net host w =
     (case AbortSignal_timeout 5000 w of
        (sg, w1) \<Rightarrow>
          (case fetch net (metaUrl host) (post_init sg) w1 of
             (Inl e, w2) \<Rightarrow> get_attempt net (metaUrl host) sg (catch_post host e w2)
           | (Inr respPost, w2) \<Rightarrow>
               if ok respPost then (json respPost, w2)
               else if status respPost \<noteq> 405 \<and> status respPost \<noteq> 404
               then get_attempt net (metaUrl host) sg
                      (catch_post host
                         (Error (''POST failed ('' @ dec (status respPost) @ '')'')) w2)
               else get_attempt net (metaUrl host) sg w2))"

section \<open>Rendering\<close>

text \<open>Sequencing of computations that may throw.\<close>

definition bind_result :: "'e + 'a \<Rightarrow> ('a \<Rightarrow> 'e + 'b) \<Rightarrow> 'e + 'b" where
  "bind_result r f = (case r of Inl e \<Rightarrow> Inl e | Inr v \<Rightarrow> f v)"

text \<open>The \<^verbatim>\<open>health\<close> object of a successful lookup.\<close>

record health =
  health_host :: string
  reachable :: bool
  softwareName :: jsval
  version :: jsval
  description :: jsval
  adminName :: jsval
  adminEmail :: jsval
  contactLink :: jsval

definition health_of :: "string \<Rightarrow> jsval \<Rightarrow> health" where
  "health_of host meta =
     \<lparr>health_host = host,
      reachable = True,
      softwareName = js_or (js_or (get meta ''softwareName'') (get meta ''name'')) JNull,
      version = js_or (get meta ''version'') JNull,
      description = js_or (get meta ''description'') JNull,
      adminName = js_or (get meta ''maintainerName'') JNull,
      adminEmail = js_or (get meta ''maintainerEmail'') JNull,
      contactLink = js_or (js_or (get meta ''inquiryUrl'') (get meta ''repositoryUrl'')) JNull\<rparr>"

definition descHtml :: "engine \<Rightarrow> health \<Rightarrow> js_error + string" where
  "descHtml eng h =
     (if truthy (description h)
      then bind_result (escapeHTML eng (description h)) (\<lambda>d.
             Inr (''<p><strong>Description:</strong></p><p class=\"description\">'' @ d @ ''</p>''))
      else Inr ''<p><strong>Description:</strong> N/A</p>'')"

definition contactLinkHtml :: "engine \<Rightarrow> health \<Rightarrow> js_error + string" where
  "contactLinkHtml eng h =
     (if truthy (contactLink h)
      then bind_result (escapeHTML eng (contactLink h)) (\<lambda>u.
             Inr (''<a href=\"'' @ u @ ''\" target=\"_blank\" rel=\"noopener\">'' @ u @ ''</a>''))
      else Inr ''N/A'')"

text \<open>
  The four link lines of the details block have one shape and differ in the label and
  the property.
\<close>

definition detail_link :: "engine \<Rightarrow> string \<Rightarrow> jsval \<Rightarrow> js_error + string" where
  "detail_link eng label v =
     (if truthy v
      then bind_result (escapeHTML eng v) (\<lambda>u.
             Inr (''<p><strong>'' @ label @ '':</strong> <a href=\"'' @ u
                  @ ''\" target=\"_blank\" rel=\"noopener\">'' @ u @ ''</a></p>''))
      else Inr [])"

definition metaIcon :: "engine \<Rightarrow> jsval \<Rightarrow> js_error + string" where
  "metaIcon eng meta = detail_link eng ''Icon'' (get meta ''iconUrl'')"

definition metaBanner :: "engine \<Rightarrow> jsval \<Rightarrow> js_error + string" where
  "metaBanner eng meta = detail_link eng ''Banner'' (get meta ''bannerUrl'')"

definition metaTos :: "engine \<Rightarrow> jsval \<Rightarrow> js_error + string" where
  "metaTos eng meta = detail_link eng ''Terms of Service'' (get meta ''tosUrl'')"

definition metaPrivacy :: "engine \<Rightarrow> jsval \<Rightarrow> js_error + string" where
  "metaPrivacy eng meta = detail_link eng ''Privacy Policy'' (get meta ''privacyPolicyUrl'')"

definition metaMaxLength :: "engine \<Rightarrow> jsval \<Rightarrow> js_error + string" where
  "metaMaxLength eng meta =
     (if truthy (get meta ''maxNoteTextLength'')
      then bind_result (escapeHTML eng (get meta ''maxNoteTextLength'')) (\<lambda>n.
             Inr (''<p><strong>Max Note Length:</strong> '' @ n @ ''</p>''))
      else Inr [])"

fun isArray :: "jsval \<Rightarrow> bool" where
  "isArray (JArr xs) = True"
| "isArray v = False"

fun elements :: "jsval \<Rightarrow> jsval list" where
  "elements (JArr xs) = xs"
| "elements v = []"

text \<open>The \<^verbatim>\<open>forEach\<close> loop over the rules, appending one item to the markup each.\<close>

fun append_rules :: "engine \<Rightarrow> jsval list \<Rightarrow> string \<Rightarrow> js_error + string" where
  "append_rules eng [] html = Inr html"
| "append_rules eng (rule # rules) html =
     (case escapeHTML eng rule of
        Inl e \<Rightarrow> Inl e
      | Inr r \<Rightarrow> append_rules eng rules (html @ ''<li>'' @ r @ ''</li>''))"

definition metaRulesHtml :: "engine \<Rightarrow> jsval \<Rightarrow> js_error + string" where
  "metaRulesHtml eng meta =
     (let serverRules = get meta ''serverRules'' in
      if truthy serverRules \<and> isArray serverRules \<and> 0 < length (elements serverRules)
      then bind_result
             (append_rules eng (elements serverRules)
                ''<p><strong>Server Rules:</strong></p><ul class=\"rules\">'')
             (\<lambda>html. Inr (html @ ''</ul>''))
      else Inr [])"

text \<open>
  The body of the \<^verbatim>\<open>try\<close> block after the lookup, up to the markup assigned to the
  output. Reading the first property of \<^verbatim>\<open>null\<close> throws.
\<close>

definition render_online :: "engine \<Rightarrow> string \<Rightarrow> jsval \<Rightarrow> js_error + string" where
  "render_online eng host meta =
     (if meta = JNull \<or> meta = JUndefined
      then Inl (TypeError (null_read_message eng ''softwareName''))
      else
        (let h = health_of host meta in
         bind_result (descHtml eng h) (\<lambda>desc.
         bind_result (contactLinkHtml eng h) (\<lambda>contact.
         bind_result (metaIcon eng meta) (\<lambda>icon.
         bind_result (metaBanner eng meta) (\<lambda>banner.
         bind_result (metaTos eng meta) (\<lambda>tos.
         bind_result (metaPrivacy eng meta) (\<lambda>privacy.
         bind_result (metaMaxLength eng meta) (\<lambda>maxLength.
         bind_result (metaRulesHtml eng meta) (\<lambda>rules.
         bind_result (escapeHTML eng (JStr (health_host h))) (\<lambda>hostText.
         bind_result (escapeHTML eng (js_or (version h) (JStr ''N/A''))) (\<lambda>versionText.
         bind_result (escapeHTML eng (js_or (adminName h) (JStr ''N/A''))) (\<lambda>adminText.
         bind_result (escapeHTML eng (js_or (adminEmail h) (JStr ''N/A''))) (\<lambda>emailText.
           Inr (''\<newline>      <p><strong>Host:</strong> '' @ hostText
              @ ''</p>\<newline>      <p><strong>Status:</strong> <span style=\"color:#7ee787;\">Online</span></p>\<newline>      ''
              @ desc
              @ ''\<newline>      <p><strong>Version:</strong> '' @ versionText
              @ ''</p>\<newline>      <p><strong>Admin:</strong> '' @ adminText
              @ ''</p>\<newline>      <p><strong>Email:</strong> '' @ emailText
              @ ''</p>\<newline>      <p><strong>Contact:</strong> '' @ contact
              @ ''</p>\<newline>      \<newline>      <hr>\<newline>      \<newline>      <p style=\"font-weight:bold; opacity: 0.8;\">--- Server Details (from /api/meta) ---</p>\<newline>      ''
              @ maxLength @ ''\<newline>      ''
              @ icon @ ''\<newline>      ''
              @ banner @ ''\<newline>      ''
              @ tos @ ''\<newline>      ''
              @ privacy @ ''\<newline>      ''
              @ rules @ ''\<newline>    '')))))))))))))))"

text \<open>The markup of the \<^verbatim>\<open>catch\<close> block.\<close>

definition render_offline :: "engine \<Rightarrow> string \<Rightarrow> js_error \<Rightarrow> js_error + string" where
  "render_offline eng host e =
     bind_result (escapeHTML eng (JStr host)) (\<lambda>hostText.
     bind_result (escapeHTML eng (JStr (message e))) (\<lambda>errorText.
       Inr (''\<newline>      <p><strong>Host:</strong> '' @ hostText
          @ ''</p>\<newline>      <p><strong>Status:</strong> <span style=\"color:#f88;\">Offline</span></p>\<newline>      <p><strong>Error:</strong> ''
          @ errorText @ ''</p>\<newline>    '')))"

section \<open>doSearch\<close>

text \<open>
  \<^verbatim>\<open>String.prototype.trim\<close> removes white space and line terminators from both
  ends: the code points 9 to 13, 32, U+00A0, U+1680, U+2000 to U+200A, U+2028, U+2029,
  U+202F, U+205F, U+3000 and U+FEFF, here in their encodings.
\<close>

definition white_space :: "string list" where
  "white_space =
     [[CHR 0x09], [CHR 0x0A], [CHR 0x0B], [CHR 0x0C], [CHR 0x0D], [CHR 0x20],
      [CHR 0xC2, CHR 0xA0],
      [CHR 0xE1, CHR 0x9A, CHR 0x80],
      [CHR 0xE2, CHR 0x80, CHR 0x80], [CHR 0xE2, CHR 0x80, CHR 0x81],
      [CHR 0xE2, CHR 0x80, CHR 0x82], [CHR 0xE2, CHR 0x80, CHR 0x83],
      [CHR 0xE2, CHR 0x80, CHR 0x84], [CHR 0xE2, CHR 0x80, CHR 0x85],
      [CHR 0xE2, CHR 0x80, CHR 0x86], [CHR 0xE2, CHR 0x80, CHR 0x87],
      [CHR 0xE2, CHR 0x80, CHR 0x88], [CHR 0xE2, CHR 0x80, CHR 0x89],
      [CHR 0xE2, CHR 0x80, CHR 0x8A],
      [CHR 0xE2, CHR 0x80, CHR 0xA8], [CHR 0xE2, CHR 0x80, CHR 0xA9],
      [CHR 0xE2, CHR 0x80, CHR 0xAF],
      [CHR 0xE2, CHR 0x81, CHR 0x9F],
      [CHR 0xE3, CHR 0x80, CHR 0x80],
      [CHR 0xEF, CHR 0xBB, CHR 0xBF]]"

text \<open>The length of the white space character that a string starts or ends with, or 0.\<close>

definition leading_space :: "string \<Rightarrow> nat" where
  "leading_space s = (case find (\<lambda>p. prefix p s) white_space of None \<Rightarrow> 0 | Some p \<Rightarrow> length p)"

definition trailing_space :: "string \<Rightarrow> nat" where
  "trailing_space s = (case find (\<lambda>p. suffix p s) white_space of None \<Rightarrow> 0 | Some p \<Rightarrow> length p)"

function trimStart :: "string \<Rightarrow> string" where
  "trimStart s =
     (if leading_space s = 0 then s else trimStart (drop (leading_space s) s))"
  by pat_completeness auto
termination
  apply (relation "measure length")
   apply simp
  apply (simp add: leading_space_def split: option.splits)
  apply (auto simp: find_Some_iff prefix_def)
  done

function trimEnd :: "string \<Rightarrow> string" where
  "trimEnd s =
     (if trailing_space s = 0 then s else trimEnd (take (length s - trailing_space s) s))"
  by pat_completeness auto
termination
  apply (relation "measure length")
   apply simp
  apply (simp add: trailing_space_def split: option.splits)
  apply (auto simp: find_Some_iff suffix_def)
  done

declare trimStart.simps [simp del] trimEnd.simps [simp del]

definition trim :: "string \<Rightarrow> string" where
  "trim s = trimEnd (trimStart s)"

text \<open>The text shown while the lookup runs.\<close>

definition loading_text :: string where
  "loading_text =
     [CHR 0xE5, CHR 0x8F, CHR 0x96, CHR 0xE5, CHR 0xBE, CHR 0x97, CHR 0xE4, CHR 0xB8, CHR 0xAD]
     @ ''...''"

text \<open>The \<^verbatim>\<open>catch\<close> block of \<^verbatim>\<open>doSearch\<close>.\<close>

definition catch_search :: "engine \<Rightarrow> string \<Rightarrow> js_error \<Rightarrow> world \<Rightarrow> (js_error + unit) \<times> world" where
  "catch_search eng host e w =
     (let w' = console_error [''Client-side error for '' @ host @ '':'', message e] w in
      case render_offline eng host e of
        Inl e' \<Rightarrow> (Inl e', w')
      | Inr html \<Rightarrow> (Inr (), w'\<lparr>resultDiv := InnerHTML html\<rparr>))"

text \<open>
  \<^verbatim>\<open>doSearch()\<close>, from the click to the settled promise: \<open>Inr ()\<close> when it fulfils.
\<close>

definition doSearch :: "network \<Rightarrow> engine \<Rightarrow> world \<Rightarrow> (js_error + unit) \<times> world" where
  "doSearch net eng w =
     (let host = trim (hostInput w) in
      if host = [] then (Inr (), w)
      else
        (case getMeta net host (w\<lparr>resultDiv := TextContent loading_text\<rparr>) of
           (r, w1) \<Rightarrow>
             (case bind_result r (render_online eng host) of
                Inl e \<Rightarrow> catch_search eng host e w1
              | Inr html \<Rightarrow> (Inr (), w1\<lparr>resultDiv := InnerHTML html\<rparr>))))"

section \<open>Observing the markup\<close>

text \<open>
  The tags of a piece of markup: the two characters that follow each \<^verbatim>\<open><\<close> in it.
\<close>

fun tags :: "string \<Rightarrow> string list" where
  "tags [] = []"
| "tags (c # cs) = (if c = CHR ''<'' then [take 2 cs] else []) @ tags cs"

text \<open>The markup does not end within two characters of a \<^verbatim>\<open><\<close>.\<close>

definition closed :: "string \<Rightarrow> bool" where
  "closed s = (CHR ''<'' \<notin> set (take 2 (rev s)))"

section \<open>Concrete environments\<close>

text \<open>An engine with the messages of V8.\<close>

definition v8 :: engine where
  "v8 =
     \<lparr>null_read_message =
        (\<lambda>k. ''Cannot read properties of null (reading '' @ [CHR 0x27] @ k @ [CHR 0x27] @ '')''),
      to_primitive_message = ''Cannot convert object to primitive value''\<rparr>"

text \<open>The page at rest, with a given text in the input field.\<close>

definition idle :: "string \<Rightarrow> world" where
  "idle input =
     \<lparr>clock = 0, hostInput = input, resultDiv = TextContent [], console = [],
      signals = [], fetch_calls = []\<rparr>"

text \<open>A server that answers every POST in one way and every other request in another.\<close>

definition server :: "nat \<times> net_outcome \<Rightarrow> nat \<times> net_outcome \<Rightarrow> network" where
  "server post other =
     \<lparr>serve = (\<lambda>url i t. if request_method i = ''POST'' then post else other),
      timeout_message = ''signal timed out''\<rparr>"

definition replies :: "nat \<Rightarrow> jsval \<Rightarrow> net_outcome" where
  "replies st v = Responds \<lparr>status = st, json = Inr v\<rparr>"

definition not_json :: js_error where
  "not_json = \<lparr>name = ''SyntaxError'', message = ''Unexpected token < in JSON at position 0''\<rparr>"

definition unreachable :: net_outcome where
  "unreachable = Fails (TypeError ''Failed to fetch'')"

definition foo_meta :: jsval where
  "foo_meta = JObj [(''softwareName'', JStr ''Foo''), (''version'', JStr ''1.0'')]"

definition rules_meta :: jsval where
  "rules_meta = JObj [(''serverRules'', JArr [JStr ''Be nice'', JStr ''No spam''])]"

text \<open>Metadata with rules and with a description that has no primitive value.\<close>

definition odd_meta :: jsval where
  "odd_meta =
     JObj [(''serverRules'', JArr [JStr ''Be nice'', JStr ''No spam'']),
           (''description'', JObj [(''toString'', JNum 1)])]"

definition script_meta :: jsval where
  "script_meta = JObj [(''description'', JStr ''<script>alert(1)</script>'')]"

text \<open>
  The page for the host \<^verbatim>\<open>example.com\<close> when the server names no administrator, no
  contact and no details: what is left open is the description block, the version and
  the rules block.
\<close>

definition page :: "string \<Rightarrow> string \<Rightarrow> string \<Rightarrow> string" where
  "page desc ver rules =
     ''\<newline>      <p><strong>Host:</strong> example.com</p>''
     @ ''\<newline>      <p><strong>Status:</strong> <span style=\"color:#7ee787;\">Online</span></p>''
     @ ''\<newline>      '' @ desc
     @ ''\<newline>      <p><strong>Version:</strong> '' @ ver @ ''</p>''
     @ ''\<newline>      <p><strong>Admin:</strong> N/A</p>''
     @ ''\<newline>      <p><strong>Email:</strong> N/A</p>''
     @ ''\<newline>      <p><strong>Contact:</strong> N/A</p>''
     @ ''\<newline>      ''
     @ ''\<newline>      <hr>''
     @ ''\<newline>      ''
     @ ''\<newline>      <p style=\"font-weight:bold; opacity: 0.8;\">--- Server Details (from /api/meta) ---</p>''
     @ ''\<newline>      ''
     @ ''\<newline>      ''
     @ ''\<newline>      ''
     @ ''\<newline>      ''
     @ ''\<newline>      ''
     @ ''\<newline>      '' @ rules
     @ ''\<newline>    ''"

section \<open>Properties of getMeta\<close>

lemma catch_post_frame [simp]:
  "fetch_calls (catch_post host e w) = fetch_calls w"
  "clock (catch_post host e w) = clock w"
  "signals (catch_post host e w) = signals w"
  by (simp_all add: catch_post_def console_error_def)

lemma get_attempt_calls:
  "fetch_calls (snd (get_attempt net url sg w)) =
     fetch_calls w @ [\<lparr>call_url = url, call_init = get_init sg, call_time = clock w\<rparr>]"
  by (simp add: get_attempt_def fetch_def split: prod.splits sum.splits)

lemma get_attempt_console [simp]:
  "console (snd (get_attempt net url sg w)) = console w"
  by (simp add: get_attempt_def fetch_def split: prod.splits sum.splits)

lemma get_attempt_signals [simp]:
  "signals (snd (get_attempt net url sg w)) = signals w"
  by (simp add: get_attempt_def fetch_def split: prod.splits sum.splits)

lemma get_attempt_result:
  "settle net url (get_init sg) (clock w) = (g, t) \<Longrightarrow>
   fst (get_attempt net url sg w) =
     (case g of
        Inl e \<Rightarrow> Inl e
      | Inr r \<Rightarrow> if ok r then json r else Inl (Error (''GET failed ('' @ dec (status r) @ '')'')))"
  by (simp add: get_attempt_def fetch_def split: prod.splits sum.splits)

text \<open>The example server, asked within the deadline.\<close>

lemma settle_server_post:
  "latency < 5000 \<Longrightarrow>
   settle (server (latency, out) other) url (post_init \<lparr>created = now, timeout = 5000\<rparr>) now =
     ((case out of Fails e \<Rightarrow> Inl e | Responds r \<Rightarrow> Inr r), now + latency)"
  by (simp add: settle_def server_def deadline_def post_init_def request_method_def)

lemma settle_server_get:
  "now < created sg + timeout sg \<Longrightarrow> now + latency < created sg + timeout sg \<Longrightarrow>
   settle (server post (latency, out)) url (get_init sg) now =
     ((case out of Fails e \<Rightarrow> Inl e | Responds r \<Rightarrow> Inr r), now + latency)"
  by (simp add: settle_def server_def deadline_def get_init_def request_method_def)

text \<open>
  C1: when the POST to \<^verbatim>\<open>https://<host>/api/meta\<close> settles with a response whose
  status is 2xx, \<open>getMeta\<close> settles as the \<^verbatim>\<open>json()\<close> of that response does, with
  the parsed body when there is one, and the only call of \<^verbatim>\<open>fetch\<close> it makes is that
  POST: no GET is issued.
\<close>

theorem getMeta_post_ok:
  assumes "sg = \<lparr>created = clock w, timeout = 5000\<rparr>"
    and "settle net (metaUrl host) (post_init sg) (clock w) = (Inr respPost, t)"
    and "ok respPost"
  shows "fst (getMeta net host w) = json respPost \<and>
         fetch_calls (snd (getMeta net host w)) =
           fetch_calls w
           @ [\<lparr>call_url = metaUrl host, call_init = post_init sg, call_time = clock w\<rparr>]"
  using assms by (simp add: getMeta_def AbortSignal_timeout_def fetch_def Let_def)

theorem getMeta_post_ok_witness:
  "settle (server (120, replies 200 foo_meta) (80, replies 200 (JObj []))) (metaUrl ''example.com'')
     (post_init \<lparr>created = 0, timeout = 5000\<rparr>) 0 = (Inr \<lparr>status = 200, json = Inr foo_meta\<rparr>, 120)
   \<and> ok \<lparr>status = 200, json = Inr foo_meta\<rparr>
   \<and> fst (getMeta (server (120, replies 200 foo_meta) (80, replies 200 (JObj []))) ''example.com''
            (idle ''example.com'')) = Inr foo_meta
   \<and> fetch_calls (snd (getMeta (server (120, replies 200 foo_meta) (80, replies 200 (JObj [])))
            ''example.com'' (idle ''example.com''))) =
       [\<lparr>call_url = ''https://example.com/api/meta'',
         call_init = post_init \<lparr>created = 0, timeout = 5000\<rparr>, call_time = 0\<rparr>]"
proof -
  let ?net = "server (120, replies 200 foo_meta) (80, replies 200 (JObj []))"
  let ?sg = "\<lparr>created = clock (idle ''example.com''), timeout = 5000\<rparr>"
  have h1: "settle ?net (metaUrl ''example.com'') (post_init ?sg) (clock (idle ''example.com''))
              = (Inr \<lparr>status = 200, json = Inr foo_meta\<rparr>, 120)"
    by (simp add: idle_def settle_server_post replies_def)
  have h2: "ok \<lparr>status = 200, json = Inr foo_meta\<rparr>"
    by (simp add: ok_def)
  from getMeta_post_ok [OF refl h1 h2] h1 h2 show ?thesis
    by (simp add: idle_def metaUrl_def)
qed

lemma settle_clock:
  "settle net url i now = (r, t) \<Longrightarrow> now \<le> deadline (init_signal i) \<Longrightarrow>
   t \<le> deadline (init_signal i) \<and> now \<le> t"
  by (auto simp: settle_def Let_def split: prod.splits if_splits)

lemma settle_late:
  "deadline (init_signal i) \<le> now + fst (serve net url i now) \<Longrightarrow>
   fst (settle net url i now) = Inl (TimeoutError net)"
  by (auto simp: settle_def Let_def split: prod.splits if_splits)

lemma get_attempt_clock:
  "clock w \<le> deadline sg \<Longrightarrow> clock (snd (get_attempt net url sg w)) \<le> deadline sg"
  using settle_clock [of net url "get_init sg" "clock w"]
  by (auto simp: get_attempt_def fetch_def get_init_def split: prod.splits sum.splits)

lemma get_attempt_late:
  "deadline sg \<le> clock w + fst (serve net url (get_init sg) (clock w)) \<Longrightarrow>
   fst (get_attempt net url sg w) = Inl (TimeoutError net)"
  using settle_late [of "get_init sg" "clock w" net url]
  by (auto simp: get_attempt_def fetch_def get_init_def split: prod.splits sum.splits)

text \<open>
  The two ways through \<open>getMeta\<close>: the POST succeeds and its body is the result, or the
  rest of the function is the GET attempt, started when the POST has settled.
\<close>

lemma getMeta_cases:
  assumes "sg = \<lparr>created = clock w, timeout = 5000\<rparr>"
    and "settle net (metaUrl host) (post_init sg) (clock w) = (p, t)"
  shows "(\<exists>r. p = Inr r \<and> ok r \<and>
            getMeta net host w =
              (json r, w\<lparr>signals := signals w @ [sg], clock := t,
                 fetch_calls := fetch_calls w
                   @ [\<lparr>call_url = metaUrl host, call_init = post_init sg, call_time = clock w\<rparr>]\<rparr>))
       \<or> ((\<forall>r. p = Inr r \<longrightarrow> \<not> ok r) \<and>
            (\<exists>w2. getMeta net host w = get_attempt net (metaUrl host) sg w2 \<and>
              clock w2 = t \<and> signals w2 = signals w @ [sg] \<and>
              fetch_calls w2 = fetch_calls w
                @ [\<lparr>call_url = metaUrl host, call_init = post_init sg, call_time = clock w\<rparr>]))"
proof (cases p)
  case (Inl e)
  have "getMeta net host w = get_attempt net (metaUrl host) sg
          (catch_post host e (w\<lparr>signals := signals w @ [sg], clock := t,
             fetch_calls := fetch_calls w
               @ [\<lparr>call_url = metaUrl host, call_init = post_init sg, call_time = clock w\<rparr>]\<rparr>))"
    using assms Inl by (simp add: getMeta_def AbortSignal_timeout_def fetch_def Let_def)
  then show ?thesis
    using Inl by (intro disjI2 conjI exI) (simp_all, simp_all)
next
  case (Inr r)
  show ?thesis
  proof (cases "ok r")
    case True
    with assms Inr show ?thesis
      by (simp add: getMeta_def AbortSignal_timeout_def fetch_def Let_def)
  next
    case False
    have "\<exists>w2. getMeta net host w = get_attempt net (metaUrl host) sg w2 \<and>
              clock w2 = t \<and> signals w2 = signals w @ [sg] \<and>
              fetch_calls w2 = fetch_calls w
                @ [\<lparr>call_url = metaUrl host, call_init = post_init sg, call_time = clock w\<rparr>]"
    proof (cases "status r \<noteq> 405 \<and> status r \<noteq> 404")
      case True
      have "getMeta net host w = get_attempt net (metaUrl host) sg
          (catch_post host (Error (''POST failed ('' @ dec (status r) @ '')''))
            (w\<lparr>signals := signals w @ [sg], clock := t,
             fetch_calls := fetch_calls w
               @ [\<lparr>call_url = metaUrl host, call_init = post_init sg, call_time = clock w\<rparr>]\<rparr>))"
        using assms Inr False True
        by (simp add: getMeta_def AbortSignal_timeout_def fetch_def Let_def)
      then show ?thesis
        by (intro exI conjI) (simp_all, simp_all)
    next
      case silent: False
      have "getMeta net host w = get_attempt net (metaUrl host) sg
            (w\<lparr>signals := signals w @ [sg], clock := t,
             fetch_calls := fetch_calls w
               @ [\<lparr>call_url = metaUrl host, call_init = post_init sg, call_time = clock w\<rparr>]\<rparr>)"
        using assms Inr False silent
        by (auto simp: getMeta_def AbortSignal_timeout_def fetch_def Let_def)
      then show ?thesis
        by (intro exI conjI) (simp_all, simp_all)
    qed
    with Inr False show ?thesis by simp
  qed
qed

text \<open>
  C2: when the POST does not settle with a 2xx response, because it was rejected (a
  transport failure or the timeout) or because its status is 404, 405 or any other
  status outside 2xx, \<open>getMeta\<close> calls \<^verbatim>\<open>fetch\<close> exactly once more, after the POST
  has settled: a GET of the same URL.
\<close>

theorem getMeta_fallback_once:
  assumes "sg = \<lparr>created = clock w, timeout = 5000\<rparr>"
    and "settle net (metaUrl host) (post_init sg) (clock w) = (p, t)"
    and "\<forall>r. p = Inr r \<longrightarrow> \<not> ok r"
  shows "fetch_calls (snd (getMeta net host w)) =
           fetch_calls w
           @ [\<lparr>call_url = metaUrl host, call_init = post_init sg, call_time = clock w\<rparr>,
              \<lparr>call_url = metaUrl host, call_init = get_init sg, call_time = t\<rparr>]
         \<and> request_method (get_init sg) = ''GET''"
  using getMeta_cases [OF assms(1,2)] assms(3)
  by (auto simp: get_attempt_calls request_method_def get_init_def)

theorem getMeta_fallback_once_witness:
  "settle (server (120, replies 404 JNull) (80, replies 200 foo_meta)) (metaUrl ''example.com'')
     (post_init \<lparr>created = 0, timeout = 5000\<rparr>) 0 = (Inr \<lparr>status = 404, json = Inr JNull\<rparr>, 120)
   \<and> \<not> ok \<lparr>status = 404, json = Inr JNull\<rparr>
   \<and> fetch_calls (snd (getMeta (server (120, replies 404 JNull) (80, replies 200 foo_meta))
            ''example.com'' (idle ''example.com''))) =
       [\<lparr>call_url = ''https://example.com/api/meta'',
         call_init = post_init \<lparr>created = 0, timeout = 5000\<rparr>, call_time = 0\<rparr>,
        \<lparr>call_url = ''https://example.com/api/meta'',
         call_init = get_init \<lparr>created = 0, timeout = 5000\<rparr>, call_time = 120\<rparr>]"
proof -
  let ?net = "server (120, replies 404 JNull) (80, replies 200 foo_meta)"
  let ?sg = "\<lparr>created = clock (idle ''example.com''), timeout = 5000\<rparr>"
  have h1: "settle ?net (metaUrl ''example.com'') (post_init ?sg) (clock (idle ''example.com''))
              = (Inr \<lparr>status = 404, json = Inr JNull\<rparr>, 120)"
    by (simp add: idle_def settle_server_post replies_def)
  have h2: "\<not> ok \<lparr>status = 404, json = Inr JNull\<rparr>"
    by (simp add: ok_def)
  then have h3: "\<forall>r. (Inr \<lparr>status = 404, json = Inr JNull\<rparr> :: js_error + response) = Inr r
                  \<longrightarrow> \<not> ok r"
    by simp
  from getMeta_fallback_once [OF refl h1 h3] h1 h2 show ?thesis
    by (simp add: idle_def metaUrl_def)
qed

text \<open>
  C4, as stated, fails twice. A POST answered with status 200 and a body that is not JSON
  ends the operation: \<open>getMeta\<close> is rejected with the parse error, nothing is written to
  the console and no GET is issued. And a POST answered with 404 falls back to the GET
  without a line on the console.
\<close>

theorem post_failure_counterexample:
  "fst (getMeta (server (120, Responds \<lparr>status = 200, json = Inl not_json\<rparr>) (80, replies 200 foo_meta))
          ''example.com'' (idle ''example.com'')) = Inl not_json
   \<and> fetch_calls (snd (getMeta
           (server (120, Responds \<lparr>status = 200, json = Inl not_json\<rparr>) (80, replies 200 foo_meta))
           ''example.com'' (idle ''example.com''))) =
       [\<lparr>call_url = ''https://example.com/api/meta'',
         call_init = post_init \<lparr>created = 0, timeout = 5000\<rparr>, call_time = 0\<rparr>]
   \<and> console (snd (getMeta
           (server (120, Responds \<lparr>status = 200, json = Inl not_json\<rparr>) (80, replies 200 foo_meta))
           ''example.com'' (idle ''example.com''))) = []
   \<and> fst (getMeta (server (120, replies 404 JNull) (80, replies 200 foo_meta))
          ''example.com'' (idle ''example.com'')) = Inr foo_meta
   \<and> console (snd (getMeta (server (120, replies 404 JNull) (80, replies 200 foo_meta))
          ''example.com'' (idle ''example.com''))) = []"
proof -
  let ?sg = "\<lparr>created = clock (idle ''example.com''), timeout = 5000\<rparr>"
  let ?bad = "server (120, Responds \<lparr>status = 200, json = Inl not_json\<rparr>) (80, replies 200 foo_meta)"
  let ?nf = "server (120, replies 404 JNull) (80, replies 200 foo_meta)"
  have bad: "settle ?bad (metaUrl ''example.com'') (post_init ?sg) (clock (idle ''example.com''))
               = (Inr \<lparr>status = 200, json = Inl not_json\<rparr>, 120)"
    by (simp add: idle_def settle_server_post)
  have nf: "settle ?nf (metaUrl ''example.com'') (post_init ?sg) (clock (idle ''example.com''))
               = (Inr \<lparr>status = 404, json = Inr JNull\<rparr>, 120)"
    by (simp add: idle_def settle_server_post replies_def)
  have get: "settle ?nf (metaUrl ''example.com'') (get_init ?sg) 120
               = (Inr \<lparr>status = 200, json = Inr foo_meta\<rparr>, 200)"
    by (simp add: idle_def settle_server_get replies_def)
  have 1: "getMeta ?bad ''example.com'' (idle ''example.com'') =
             (Inl not_json, (idle ''example.com'')\<lparr>signals := [?sg], clock := 120,
                fetch_calls := [\<lparr>call_url = metaUrl ''example.com'', call_init = post_init ?sg,
                                 call_time = 0\<rparr>]\<rparr>)"
    using getMeta_cases [OF refl bad] by (simp add: ok_def idle_def)
  have 2: "getMeta ?nf ''example.com'' (idle ''example.com'') =
             get_attempt ?nf (metaUrl ''example.com'') ?sg
               ((idle ''example.com'')\<lparr>signals := [?sg], clock := 120,
                fetch_calls := [\<lparr>call_url = metaUrl ''example.com'', call_init = post_init ?sg,
                                 call_time = 0\<rparr>]\<rparr>)"
    using nf by (simp add: getMeta_def AbortSignal_timeout_def fetch_def Let_def ok_def idle_def)
  have 3: "fst (getMeta ?nf ''example.com'' (idle ''example.com'')) = Inr foo_meta"
    unfolding 2 using get by (simp add: get_attempt_result ok_def)
  have 4: "console (snd (getMeta ?nf ''example.com'' (idle ''example.com''))) = []"
    unfolding 2 by (simp add: idle_def)
  from 1 3 4 show ?thesis
    by (simp add: idle_def metaUrl_def)
qed

text \<open>
  C4, amended: a POST that is rejected (a transport failure or the timeout) or answered
  with a status outside 2xx does not end the operation. \<open>getMeta\<close> goes on to the GET and
  settles as the GET attempt does. The failure is written to the console in one line,
  except for the statuses 404 and 405, which fall back without a line.
\<close>

theorem post_failure_falls_back:
  assumes "sg = \<lparr>created = clock w, timeout = 5000\<rparr>"
    and "settle net (metaUrl host) (post_init sg) (clock w) = (p, t1)"
    and "\<forall>r. p = Inr r \<longrightarrow> \<not> ok r"
    and "settle net (metaUrl host) (get_init sg) t1 = (g, t2)"
  shows "fst (getMeta net host w) =
           (case g of
              Inl e \<Rightarrow> Inl e
            | Inr r \<Rightarrow> if ok r then json r else Inl (Error (''GET failed ('' @ dec (status r) @ '')'')))
         \<and> console (snd (getMeta net host w)) =
           console w @
             (case p of
                Inl e \<Rightarrow>
                  [[if name e = ''AbortError'' then ''POST attempt timed out for '' @ host
                    else ''POST attempt failed for '' @ host @ '': '' @ message e]]
              | Inr r \<Rightarrow>
                  if status r = 404 \<or> status r = 405 then []
                  else [[''POST attempt failed for '' @ host @ '': POST failed (''
                         @ dec (status r) @ '')'']])"
proof (cases p)
  case (Inl e)
  with assms show ?thesis
    by (simp add: getMeta_def AbortSignal_timeout_def fetch_def get_attempt_result Let_def
        catch_post_def console_error_def)
next
  case (Inr r)
  with assms have "\<not> ok r" by simp
  with Inr assms show ?thesis
    by (simp add: getMeta_def AbortSignal_timeout_def fetch_def get_attempt_result Let_def
        catch_post_def console_error_def Error_def)
qed

theorem post_failure_falls_back_witness:
  "settle (server (120, replies 500 JNull) (80, replies 200 foo_meta)) (metaUrl ''example.com'')
     (post_init \<lparr>created = 0, timeout = 5000\<rparr>) 0 = (Inr \<lparr>status = 500, json = Inr JNull\<rparr>, 120)
   \<and> \<not> ok \<lparr>status = 500, json = Inr JNull\<rparr>
   \<and> settle (server (120, replies 500 JNull) (80, replies 200 foo_meta)) (metaUrl ''example.com'')
     (get_init \<lparr>created = 0, timeout = 5000\<rparr>) 120 = (Inr \<lparr>status = 200, json = Inr foo_meta\<rparr>, 200)
   \<and> fst (getMeta (server (120, replies 500 JNull) (80, replies 200 foo_meta)) ''example.com''
            (idle ''example.com'')) = Inr foo_meta
   \<and> console (snd (getMeta (server (120, replies 500 JNull) (80, replies 200 foo_meta))
            ''example.com'' (idle ''example.com''))) =
       [[''POST attempt failed for example.com: POST failed (500)'']]"
proof -
  let ?net = "server (120, replies 500 JNull) (80, replies 200 foo_meta)"
  let ?sg = "\<lparr>created = clock (idle ''example.com''), timeout = 5000\<rparr>"
  have h1: "settle ?net (metaUrl ''example.com'') (post_init ?sg) (clock (idle ''example.com''))
              = (Inr \<lparr>status = 500, json = Inr JNull\<rparr>, 120)"
    by (simp add: idle_def settle_server_post replies_def)
  have h2: "\<not> ok \<lparr>status = 500, json = Inr JNull\<rparr>"
    by (simp add: ok_def)
  then have h3: "\<forall>r. (Inr \<lparr>status = 500, json = Inr JNull\<rparr> :: js_error + response) = Inr r
                  \<longrightarrow> \<not> ok r"
    by simp
  have h4: "settle ?net (metaUrl ''example.com'') (get_init ?sg) 120
              = (Inr \<lparr>status = 200, json = Inr foo_meta\<rparr>, 200)"
    by (simp add: idle_def settle_server_get replies_def)
  have d: "dec 500 = ''500''"
    by (simp add: dec.simps)
  from post_failure_falls_back [OF refl h1 h3 h4] h1 h2 h4 d show ?thesis
    by (simp add: idle_def ok_def)
qed

text \<open>
  C6: \<open>getMeta\<close> creates one abort signal, with a timeout of 5000 ms, before the POST,
  and every call of \<^verbatim>\<open>fetch\<close> it makes carries that signal. There is one deadline,
  5000 ms after the start, and \<open>getMeta\<close> has settled its requests by then: a GET
  whose answer would come after that deadline is rejected with the timeout error, even
  if the GET itself takes less than 5000 ms. A POST that takes 5000 ms or more times out
  and is followed by the GET call like any other failed POST; that GET is rejected with
  the timeout error too.
\<close>

theorem getMeta_single_deadline:
  assumes sg: "sg = \<lparr>created = clock w, timeout = 5000\<rparr>"
  shows "signals (snd (getMeta net host w)) = signals w @ [sg]
     \<and> list_all (\<lambda>c. init_signal (call_init c) = sg)
          (drop (length (fetch_calls w)) (fetch_calls (snd (getMeta net host w))))
     \<and> clock (snd (getMeta net host w)) \<le> clock w + 5000
     \<and> (5000 \<le> fst (serve net (metaUrl host) (post_init sg) (clock w)) \<longrightarrow>
          length (fetch_calls (snd (getMeta net host w))) = length (fetch_calls w) + 2 \<and>
          fst (getMeta net host w) = Inl (TimeoutError net))
     \<and> (\<forall>p t1. settle net (metaUrl host) (post_init sg) (clock w) = (p, t1) \<and>
            (\<forall>r. p = Inr r \<longrightarrow> \<not> ok r) \<and>
            clock w + 5000 \<le> t1 + fst (serve net (metaUrl host) (get_init sg) t1) \<longrightarrow>
            fst (getMeta net host w) = Inl (TimeoutError net))"
proof -
  obtain p t where st: "settle net (metaUrl host) (post_init sg) (clock w) = (p, t)"
    by (cases "settle net (metaUrl host) (post_init sg) (clock w)")
  have dl: "deadline sg = clock w + 5000"
    by (simp add: sg deadline_def)
  have t: "t \<le> clock w + 5000" "clock w \<le> t"
    using settle_clock [OF st] dl by (simp_all add: post_init_def)
  note cs = getMeta_cases [OF sg st]
  have 1: "signals (snd (getMeta net host w)) = signals w @ [sg]"
    using cs by auto
  have 2: "list_all (\<lambda>c. init_signal (call_init c) = sg)
          (drop (length (fetch_calls w)) (fetch_calls (snd (getMeta net host w))))"
    using cs by (auto simp: get_attempt_calls post_init_def get_init_def)
  have 3: "clock (snd (getMeta net host w)) \<le> clock w + 5000"
    using cs t get_attempt_clock [of _ sg net "metaUrl host"] dl by auto
  have 4: "fst (getMeta net host w) = Inl (TimeoutError net)"
     "length (fetch_calls (snd (getMeta net host w))) = length (fetch_calls w) + 2"
    if late: "5000 \<le> fst (serve net (metaUrl host) (post_init sg) (clock w))"
  proof -
    have "fst (settle net (metaUrl host) (post_init sg) (clock w)) = Inl (TimeoutError net)"
      "snd (settle net (metaUrl host) (post_init sg) (clock w)) = clock w + 5000"
      using late dl by (auto simp: settle_def Let_def post_init_def split: prod.splits)
    with st have p: "p = Inl (TimeoutError net)" and t5: "t = clock w + 5000"
      by simp_all
    from cs p obtain w2 where w2: "getMeta net host w = get_attempt net (metaUrl host) sg w2"
      "clock w2 = t"
      "fetch_calls w2 = fetch_calls w
         @ [\<lparr>call_url = metaUrl host, call_init = post_init sg, call_time = clock w\<rparr>]"
      by auto
    show "fst (getMeta net host w) = Inl (TimeoutError net)"
      using w2 t5 dl get_attempt_late [of sg w2 net "metaUrl host"] by simp
    show "length (fetch_calls (snd (getMeta net host w))) = length (fetch_calls w) + 2"
      using w2 by (simp add: get_attempt_calls)
  qed
  have 5: "fst (getMeta net host w) = Inl (TimeoutError net)"
    if "settle net (metaUrl host) (post_init sg) (clock w) = (p', t1)"
       "\<forall>r. p' = Inr r \<longrightarrow> \<not> ok r"
       "clock w + 5000 \<le> t1 + fst (serve net (metaUrl host) (get_init sg) t1)" for p' t1
  proof -
    from that st have eq: "p' = p" "t1 = t"
      by simp_all
    from cs that(2) eq obtain w2 where
      w2: "getMeta net host w = get_attempt net (metaUrl host) sg w2" "clock w2 = t"
      by auto
    show ?thesis
      using w2 that(3) eq dl get_attempt_late [of sg w2 net "metaUrl host"] by simp
  qed
  from 1 2 3 4 5 show ?thesis
    by blast
qed

theorem getMeta_single_deadline_witness:
  "5000 \<le> fst (serve (server (6000, replies 200 foo_meta) (80, replies 200 foo_meta))
                 (metaUrl ''example.com'') (post_init \<lparr>created = 0, timeout = 5000\<rparr>) 0)
   \<and> length (fetch_calls (snd (getMeta (server (6000, replies 200 foo_meta) (80, replies 200 foo_meta))
                 ''example.com'' (idle ''example.com'')))) = 2
   \<and> fst (getMeta (server (6000, replies 200 foo_meta) (80, replies 200 foo_meta))
                 ''example.com'' (idle ''example.com''))
       = Inl \<lparr>name = ''TimeoutError'', message = ''signal timed out''\<rparr>
   \<and> settle (server (4000, replies 404 JNull) (2000, replies 200 foo_meta)) (metaUrl ''example.com'')
        (post_init \<lparr>created = 0, timeout = 5000\<rparr>) 0 = (Inr \<lparr>status = 404, json = Inr JNull\<rparr>, 4000)
   \<and> \<not> ok \<lparr>status = 404, json = Inr JNull\<rparr>
   \<and> (5000::nat) \<le> 4000 + fst (serve (server (4000, replies 404 JNull) (2000, replies 200 foo_meta))
                 (metaUrl ''example.com'') (get_init \<lparr>created = 0, timeout = 5000\<rparr>) 4000)
   \<and> fst (getMeta (server (4000, replies 404 JNull) (2000, replies 200 foo_meta))
                 ''example.com'' (idle ''example.com''))
       = Inl \<lparr>name = ''TimeoutError'', message = ''signal timed out''\<rparr>"
proof -
  let ?slow = "server (6000, replies 200 foo_meta) (80, replies 200 foo_meta)"
  let ?late = "server (4000, replies 404 JNull) (2000, replies 200 foo_meta)"
  let ?w = "idle ''example.com''"
  let ?sg = "\<lparr>created = clock ?w, timeout = 5000\<rparr>"
  have a: "5000 \<le> fst (serve ?slow (metaUrl ''example.com'') (post_init ?sg) (clock ?w))"
    by (simp add: server_def post_init_def request_method_def)
  have b: "settle ?late (metaUrl ''example.com'') (post_init ?sg) (clock ?w)
             = (Inr \<lparr>status = 404, json = Inr JNull\<rparr>, 4000)"
    by (simp add: idle_def settle_server_post replies_def)
  have c: "\<not> ok \<lparr>status = 404, json = Inr JNull\<rparr>"
    by (simp add: ok_def)
  have d: "clock ?w + 5000 \<le> 4000 + fst (serve ?late (metaUrl ''example.com'') (get_init ?sg) 4000)"
    by (simp add: server_def get_init_def request_method_def idle_def)
  from getMeta_single_deadline [OF refl, of ?slow "''example.com''" ?w] a
  have 1: "length (fetch_calls (snd (getMeta ?slow ''example.com'' ?w))) = 2"
    "fst (getMeta ?slow ''example.com'' ?w) = Inl (TimeoutError ?slow)"
    by (simp_all add: idle_def)
  from getMeta_single_deadline [OF refl, of ?late "''example.com''" ?w] b c d
  have 2: "fst (getMeta ?late ''example.com'' ?w) = Inl (TimeoutError ?late)"
    by blast
  from a b c d 1 2 show ?thesis
    by (simp add: idle_def TimeoutError_def server_def)
qed

section \<open>Properties of doSearch\<close>

lemma escapeHTML_JStr [simp]:
  "escapeHTML eng (JStr s) = Inr (replace_special s)"
  by (cases s) (simp_all add: escapeHTML_def js_or_def)

lemma render_offline_eq:
  "render_offline eng host e =
     Inr (''\<newline>      <p><strong>Host:</strong> '' @ replace_special host
          @ ''</p>\<newline>      <p><strong>Status:</strong> <span style=\"color:#f88;\">Offline</span></p>\<newline>      <p><strong>Error:</strong> ''
          @ replace_special (message e) @ ''</p>\<newline>    '')"
  by (simp add: render_offline_def bind_result_def)

text \<open>The result of \<open>getMeta\<close> after a failed POST is the result of the GET attempt.\<close>

lemma getMeta_fallback_result:
  assumes "sg = \<lparr>created = clock w, timeout = 5000\<rparr>"
    and "settle net (metaUrl host) (post_init sg) (clock w) = (p, t1)"
    and "\<forall>r. p = Inr r \<longrightarrow> \<not> ok r"
    and "settle net (metaUrl host) (get_init sg) t1 = (g, t2)"
  shows "fst (getMeta net host w) =
           (case g of
              Inl e \<Rightarrow> Inl e
            | Inr r \<Rightarrow> if ok r then json r else Inl (Error (''GET failed ('' @ dec (status r) @ '')'')))"
proof -
  from getMeta_cases [OF assms(1,2)] assms(3) obtain w2 where
    w2: "getMeta net host w = get_attempt net (metaUrl host) sg w2" "clock w2 = t1"
    by auto
  from assms(4) w2(2) have "settle net (metaUrl host) (get_init sg) (clock w2) = (g, t2)"
    by simp
  from get_attempt_result [OF this] w2(1) show ?thesis
    by simp
qed

text \<open>A text made of white space only is empty after trimming.\<close>

lemma leading_space_white:
  "p \<in> set white_space \<Longrightarrow> leading_space (p @ rest) = length p"
  unfolding white_space_def leading_space_def
  by (simp only: set_simps insert_iff empty_iff simp_thms) (elim disjE; simp)

lemma white_space_nonempty:
  "p \<in> set white_space \<Longrightarrow> p \<noteq> []"
  unfolding white_space_def
  by (simp only: set_simps insert_iff empty_iff simp_thms) (elim disjE; simp)

lemma trimEnd_empty:
  "trimEnd [] = []"
  by (simp add: trimEnd.simps trailing_space_def white_space_def)

lemma trimStart_white:
  "set ws \<subseteq> set white_space \<Longrightarrow> trimStart (concat ws) = []"
proof (induction ws)
  case Nil
  show ?case
    by (simp add: trimStart.simps leading_space_def white_space_def)
next
  case (Cons p ws)
  then have p: "p \<in> set white_space" and IH: "trimStart (concat ws) = []"
    by simp_all
  from white_space_nonempty [OF p] leading_space_white [OF p, of "concat ws"] IH show ?case
    by (subst trimStart.simps) simp
qed

lemma trim_white:
  "set ws \<subseteq> set white_space \<Longrightarrow> trim (concat ws) = []"
  by (simp add: trim_def trimStart_white trimEnd_empty)

text \<open>
  C9: when the text of the input field is empty after trimming, and so whenever it is
  empty or made of white space characters only, \<open>doSearch\<close> returns at once and changes
  nothing: no signal, no call of \<^verbatim>\<open>fetch\<close>, no line on the console, and the output
  element keeps its content.
\<close>

theorem doSearch_blank:
  "(trim (hostInput w) = [] \<longrightarrow> doSearch net eng w = (Inr (), w))
   \<and> (set ws \<subseteq> set white_space \<and> hostInput w = concat ws \<longrightarrow> doSearch net eng w = (Inr (), w))"
  by (simp add: doSearch_def trim_white)

theorem doSearch_blank_witness:
  "trim (hostInput (idle ([CHR 0x20, CHR 0x09, CHR 0xE3, CHR 0x80, CHR 0x80, CHR 0x0A]))) = []
   \<and> set [[CHR 0x20], [CHR 0x09], [CHR 0xE3, CHR 0x80, CHR 0x80], [CHR 0x0A]] \<subseteq> set white_space
   \<and> hostInput (idle ([CHR 0x20, CHR 0x09, CHR 0xE3, CHR 0x80, CHR 0x80, CHR 0x0A])) =
       concat [[CHR 0x20], [CHR 0x09], [CHR 0xE3, CHR 0x80, CHR 0x80], [CHR 0x0A]]
   \<and> doSearch (server (120, replies 200 foo_meta) (80, replies 200 foo_meta)) v8
        (idle ([CHR 0x20, CHR 0x09, CHR 0xE3, CHR 0x80, CHR 0x80, CHR 0x0A]))
      = (Inr (), idle ([CHR 0x20, CHR 0x09, CHR 0xE3, CHR 0x80, CHR 0x80, CHR 0x0A]))"
proof -
  have "trim [CHR 0x20, CHR 0x09, CHR 0xE3, CHR 0x80, CHR 0x80, CHR 0x0A] = []"
    by code_simp
  then have h: "trim (hostInput (idle ([CHR 0x20, CHR 0x09, CHR 0xE3, CHR 0x80, CHR 0x80, CHR 0x0A]))) = []"
    by (simp add: idle_def)
  have ws: "set [[CHR 0x20], [CHR 0x09], [CHR 0xE3, CHR 0x80, CHR 0x80], [CHR 0x0A]] \<subseteq> set white_space"
    by (simp add: white_space_def)
  have c: "hostInput (idle ([CHR 0x20, CHR 0x09, CHR 0xE3, CHR 0x80, CHR 0x80, CHR 0x0A])) =
       concat [[CHR 0x20], [CHR 0x09], [CHR 0xE3, CHR 0x80, CHR 0x80], [CHR 0x0A]]"
    by (simp add: idle_def)
  from doSearch_blank
    [of "idle ([CHR 0x20, CHR 0x09, CHR 0xE3, CHR 0x80, CHR 0x80, CHR 0x0A])"
        "server (120, replies 200 foo_meta) (80, replies 200 foo_meta)" v8
        "[[CHR 0x20], [CHR 0x09], [CHR 0xE3, CHR 0x80, CHR 0x80], [CHR 0x0A]]"]
    h ws c
  show ?thesis
    by (simp only: simp_thms)
qed

text \<open>
  C3: when the POST fails (it is rejected or answered outside 2xx) and the GET fails too
  (it is rejected, or answered outside 2xx, or answered with a body that is not JSON),
  \<open>getMeta\<close> is rejected with the error of the GET, and \<open>doSearch\<close> fulfils with the
  output set to the block of host, status \<^verbatim>\<open>Offline\<close> and the escaped message of the
  GET's error. What the POST failed with appears nowhere in it.
\<close>

theorem doSearch_offline:
  assumes "host = trim (hostInput w)" and "host \<noteq> []"
    and "sg = \<lparr>created = clock w, timeout = 5000\<rparr>"
    and "settle net (metaUrl host) (post_init sg) (clock w) = (p, t1)"
    and "\<forall>r. p = Inr r \<longrightarrow> \<not> ok r"
    and "settle net (metaUrl host) (get_init sg) t1 = (g, t2)"
    and "g = Inl e
         \<or> (\<exists>r. g = Inr r \<and> \<not> ok r \<and> e = Error (''GET failed ('' @ dec (status r) @ '')''))
         \<or> (\<exists>r. g = Inr r \<and> ok r \<and> json r = Inl e)"
  shows "fst (getMeta net host (w\<lparr>resultDiv := TextContent loading_text\<rparr>)) = Inl e
       \<and> fst (doSearch net eng w) = Inr ()
       \<and> resultDiv (snd (doSearch net eng w)) =
           InnerHTML
             (''\<newline>      <p><strong>Host:</strong> '' @ replace_special host
              @ ''</p>\<newline>      <p><strong>Status:</strong> <span style=\"color:#f88;\">Offline</span></p>\<newline>      <p><strong>Error:</strong> ''
              @ replace_special (message e) @ ''</p>\<newline>    '')"
proof -
  let ?w = "w\<lparr>resultDiv := TextContent loading_text\<rparr>"
  have sg': "sg = \<lparr>created = clock ?w, timeout = 5000\<rparr>"
    using assms(3) by simp
  have st: "settle net (metaUrl host) (post_init sg) (clock ?w) = (p, t1)"
    using assms(4) by simp
  have "fst (getMeta net host ?w) =
           (case g of
              Inl e \<Rightarrow> Inl e
            | Inr r \<Rightarrow> if ok r then json r else Inl (Error (''GET failed ('' @ dec (status r) @ '')'')))"
    by (rule getMeta_fallback_result [OF sg' st assms(5,6)])
  with assms(7) have r: "fst (getMeta net host ?w) = Inl e"
    by auto
  obtain w1 where w1: "getMeta net host ?w = (Inl e, w1)"
    using r by (cases "getMeta net host ?w") simp
  have "doSearch net eng w =
          (Inr (), (console_error [''Client-side error for '' @ host @ '':'', message e] w1)
             \<lparr>resultDiv := InnerHTML
               (''\<newline>      <p><strong>Host:</strong> '' @ replace_special host
                @ ''</p>\<newline>      <p><strong>Status:</strong> <span style=\"color:#f88;\">Offline</span></p>\<newline>      <p><strong>Error:</strong> ''
                @ replace_special (message e) @ ''</p>\<newline>    '')\<rparr>)"
    using assms(1,2) w1
    by (simp add: doSearch_def Let_def bind_result_def catch_search_def render_offline_eq)
  with r show ?thesis
    by simp
qed

theorem doSearch_offline_witness:
  "''example.com'' = trim (hostInput (idle ''  example.com ''))
   \<and> settle (server (120, unreachable) (80, replies 503 JNull)) (metaUrl ''example.com'')
        (post_init \<lparr>created = 0, timeout = 5000\<rparr>) 0 = (Inl (TypeError ''Failed to fetch''), 120)
   \<and> settle (server (120, unreachable) (80, replies 503 JNull)) (metaUrl ''example.com'')
        (get_init \<lparr>created = 0, timeout = 5000\<rparr>) 120 = (Inr \<lparr>status = 503, json = Inr JNull\<rparr>, 200)
   \<and> \<not> ok \<lparr>status = 503, json = Inr JNull\<rparr>
   \<and> resultDiv (snd (doSearch (server (120, unreachable) (80, replies 503 JNull)) v8
                      (idle ''  example.com ''))) =
       InnerHTML
         (''\<newline>      <p><strong>Host:</strong> example.com''
          @ ''</p>\<newline>      <p><strong>Status:</strong> <span style=\"color:#f88;\">Offline</span></p>\<newline>      <p><strong>Error:</strong> ''
          @ ''GET failed (503)</p>\<newline>    '')"
proof -
  let ?net = "server (120, unreachable) (80, replies 503 JNull)"
  let ?w = "idle ''  example.com ''"
  let ?sg = "\<lparr>created = clock ?w, timeout = 5000\<rparr>"
  let ?r = "\<lparr>status = 503, json = Inr JNull\<rparr>"
  have "trim ''  example.com '' = ''example.com''"
    by code_simp
  then have h1: "''example.com'' = trim (hostInput ?w)"
    by (simp add: idle_def)
  have h2: "''example.com'' \<noteq> []"
    by simp
  have h4: "settle ?net (metaUrl ''example.com'') (post_init ?sg) (clock ?w)
              = (Inl (TypeError ''Failed to fetch''), 120)"
    by (simp add: idle_def settle_server_post unreachable_def)
  have h5: "\<forall>r. (Inl (TypeError ''Failed to fetch'') :: js_error + response) = Inr r \<longrightarrow> \<not> ok r"
    by simp
  have h6: "settle ?net (metaUrl ''example.com'') (get_init ?sg) 120 = (Inr ?r, 200)"
    by (simp add: idle_def settle_server_get replies_def)
  have nok: "\<not> ok ?r"
    by (simp add: ok_def)
  have d: "dec 503 = ''503''"
    by (simp add: dec.simps)
  have h7: "(Inr ?r :: js_error + response) = Inl (Error ''GET failed (503)'')
         \<or> (\<exists>r. (Inr ?r :: js_error + response) = Inr r \<and> \<not> ok r
                \<and> Error ''GET failed (503)'' = Error (''GET failed ('' @ dec (status r) @ '')''))
         \<or> (\<exists>r. (Inr ?r :: js_error + response) = Inr r \<and> ok r \<and> json r = Inl (Error ''GET failed (503)''))"
    using nok d by simp
  have e: "replace_special ''example.com'' = ''example.com''"
    "replace_special ''GET failed (503)'' = ''GET failed (503)''"
    by (simp_all add: special_def)
  from doSearch_offline [OF h1 h2 refl h4 h5 h6 h7, of v8] h1 h4 h6 nok e show ?thesis
    by (simp add: idle_def Error_def)
qed

section \<open>Properties of the markup\<close>

lemma replacement_no_markup:
  "special c \<Longrightarrow> set (replacement c) \<inter> {CHR ''<'', CHR ''>'', CHR 0x22, CHR 0x27} = {}"
  by (auto simp: special_def replacement_def entities_def)

lemma replace_special_no_markup:
  "set (replace_special s) \<inter> {CHR ''<'', CHR ''>'', CHR 0x22, CHR 0x27} = {}"
proof (induction s)
  case Nil
  show ?case by simp
next
  case (Cons c s)
  show ?case
  proof (cases "special c")
    case True
    with Cons replacement_no_markup [of c] show ?thesis
      by (simp add: Int_Un_distrib2)
  next
    case False
    with Cons show ?thesis
      by (auto simp: special_def)
  qed
qed

lemma replace_special_concat:
  "replace_special s =
     concat (map (\<lambda>c. if c = CHR ''&'' then ''&amp;''
                       else if c = CHR ''<'' then ''&lt;''
                       else if c = CHR ''>'' then ''&gt;''
                       else if c = CHR 0x22 then ''&quot;''
                       else if c = CHR 0x27 then ''&#39;''
                       else [c]) s)"
  by (induction s) (auto simp: special_def replacement_def entities_def)

lemma escapeHTML_Inr:
  "escapeHTML eng v = Inr t \<Longrightarrow> \<exists>s. t = replace_special s"
  by (auto simp: escapeHTML_def split: sum.splits)

lemma escapeHTML_no_lt:
  "escapeHTML eng v = Inr t \<Longrightarrow> CHR ''<'' \<notin> set t"
  using replace_special_no_markup by (fastforce dest: escapeHTML_Inr)

lemma closed_Cons:
  "closed (c # cs) \<Longrightarrow> closed cs"
  by (auto simp: closed_def)

lemma closed_lt:
  "closed (CHR ''<'' # cs) \<Longrightarrow> 2 \<le> length cs"
  by (cases "2 \<le> length cs") (auto simp: closed_def not_le)

lemma tags_append:
  "closed a \<Longrightarrow> tags (a @ b) = tags a @ tags b"
proof (induction a)
  case Nil
  show ?case by simp
next
  case (Cons c a)
  from Cons.prems have "closed a" by (rule closed_Cons)
  with Cons.IH have IH: "tags (a @ b) = tags a @ tags b" .
  show ?case
  proof (cases "c = CHR ''<''")
    case True
    with Cons.prems have "2 \<le> length a" by (simp add: closed_lt)
    then have "take 2 (a @ b) = take 2 a" by simp
    with True IH show ?thesis by simp
  next
    case False
    with IH show ?thesis by simp
  qed
qed

lemma tags_no_lt:
  "CHR ''<'' \<notin> set v \<Longrightarrow> tags v = []"
  by (induction v) auto

lemma closed_no_lt:
  "CHR ''<'' \<notin> set v \<Longrightarrow> closed v"
  by (auto simp: closed_def dest: in_set_takeD)

lemma closed_append:
  "closed a \<Longrightarrow> closed b \<Longrightarrow> closed (a @ b)"
  using set_take_subset_set_take [of "2 - length b" 2 "rev a"]
  by (auto simp: closed_def)

lemma tags_no_lt_append:
  "CHR ''<'' \<notin> set v \<Longrightarrow> tags (v @ b) = tags b"
  by (simp add: tags_append closed_no_lt tags_no_lt)

lemma tags_suffix:
  "set (tags b) \<subseteq> set (tags (a @ b))"
  by (induction a) auto

lemma sublist_tag:
  assumes "sublist (CHR ''<'' # x # y # rest) s"
  shows "[x, y] \<in> set (tags s)"
proof -
  from assms obtain ps ss where "s = ps @ (CHR ''<'' # x # y # rest) @ ss"
    by (auto simp: sublist_def)
  then have "s = ps @ (CHR ''<'' # x # y # rest @ ss)" by simp
  moreover have "[x, y] \<in> set (tags (CHR ''<'' # x # y # rest @ ss))" by simp
  ultimately show ?thesis using tags_suffix [of "CHR ''<'' # x # y # rest @ ss" ps] by blast
qed

lemma closed_wrap:
  "closed a \<Longrightarrow> CHR ''<'' \<notin> set t \<Longrightarrow> closed b \<Longrightarrow> closed (a @ t @ b)"
  by (simp add: closed_append closed_no_lt)

lemma tags_wrap:
  "closed a \<Longrightarrow> CHR ''<'' \<notin> set t \<Longrightarrow> tags (a @ t @ b) = tags a @ tags b"
  by (simp add: tags_append tags_no_lt_append)

lemma descHtml_tags:
  assumes "descHtml eng h = Inr d"
  shows "closed d \<and> set (tags d) \<subseteq> {''p>'', ''st'', ''/s'', ''/p'', ''p ''}"
proof (cases "truthy (description h)")
  case True
  with assms obtain t where t: "escapeHTML eng (description h) = Inr t"
    and d: "d = ''<p><strong>Description:</strong></p><p class=\"description\">'' @ t @ ''</p>''"
    by (auto simp: descHtml_def bind_result_def split: sum.splits)
  from t have nl: "CHR ''<'' \<notin> set t" by (rule escapeHTML_no_lt)
  have a: "closed ''<p><strong>Description:</strong></p><p class=\"description\">''"
    and b: "closed ''</p>''"
    by (simp_all add: closed_def)
  show ?thesis
    unfolding d using closed_wrap [OF a nl b] tags_wrap [OF a nl] by simp
next
  case False
  with assms have "d = ''<p><strong>Description:</strong> N/A</p>''"
    by (simp add: descHtml_def)
  then show ?thesis by (simp add: closed_def)
qed

lemma link_tags:
  assumes "CHR ''<'' \<notin> set u"
  shows "closed (''<a href=\"'' @ u @ ''\" target=\"_blank\" rel=\"noopener\">'' @ u @ ''</a>'')"
    and "tags (''<a href=\"'' @ u @ ''\" target=\"_blank\" rel=\"noopener\">'' @ u @ ''</a>'')
           = [''a '', ''/a'']"
proof -
  have a: "closed ''<a href=\"''" and b: "closed ''\" target=\"_blank\" rel=\"noopener\">''"
    and c: "closed ''</a>''"
    by (simp_all add: closed_def)
  show "closed (''<a href=\"'' @ u @ ''\" target=\"_blank\" rel=\"noopener\">'' @ u @ ''</a>'')"
    by (intro closed_wrap a b c assms)
  have "tags (''<a href=\"'' @ u @ ''\" target=\"_blank\" rel=\"noopener\">'' @ u @ ''</a>'')
          = tags ''<a href=\"'' @ tags ''\" target=\"_blank\" rel=\"noopener\">'' @ tags ''</a>''"
    by (simp only: tags_wrap [OF a assms] tags_wrap [OF b assms])
  then show "tags (''<a href=\"'' @ u @ ''\" target=\"_blank\" rel=\"noopener\">'' @ u @ ''</a>'')
           = [''a '', ''/a'']"
    by simp
qed

lemma contactLinkHtml_tags:
  assumes "contactLinkHtml eng h = Inr d"
  shows "closed d \<and> set (tags d) \<subseteq> {''a '', ''/a''}"
proof (cases "truthy (contactLink h)")
  case True
  with assms obtain u where u: "escapeHTML eng (contactLink h) = Inr u"
    and d: "d = ''<a href=\"'' @ u @ ''\" target=\"_blank\" rel=\"noopener\">'' @ u @ ''</a>''"
    by (auto simp: contactLinkHtml_def bind_result_def split: sum.splits)
  from u have nl: "CHR ''<'' \<notin> set u" by (rule escapeHTML_no_lt)
  show ?thesis
    unfolding d using link_tags [OF nl] by simp
next
  case False
  with assms have "d = ''N/A''"
    by (simp add: contactLinkHtml_def)
  then show ?thesis by (simp add: closed_def)
qed

lemma detail_link_tags:
  assumes "detail_link eng label v = Inr d" and "CHR ''<'' \<notin> set label"
  shows "closed d \<and> set (tags d) \<subseteq> {''p>'', ''st'', ''/s'', ''/p'', ''a '', ''/a''}"
proof (cases "truthy v")
  case True
  with assms obtain u where u: "escapeHTML eng v = Inr u"
    and d: "d = ''<p><strong>'' @ label @ '':</strong> <a href=\"'' @ u
                  @ ''\" target=\"_blank\" rel=\"noopener\">'' @ u @ ''</a></p>''"
    by (auto simp: detail_link_def bind_result_def split: sum.splits)
  from u have nl: "CHR ''<'' \<notin> set u" by (rule escapeHTML_no_lt)
  have a: "closed ''<p><strong>''" and b: "closed '':</strong> <a href=\"''"
    and c: "closed ''\" target=\"_blank\" rel=\"noopener\">''" and e: "closed ''</a></p>''"
    by (simp_all add: closed_def)
  have "closed d"
    unfolding d by (intro closed_wrap a b c e assms(2) nl)
  moreover have "tags d = tags ''<p><strong>'' @ tags '':</strong> <a href=\"''
      @ tags ''\" target=\"_blank\" rel=\"noopener\">'' @ tags ''</a></p>''"
    unfolding d
    by (simp only: tags_wrap [OF a assms(2)] tags_wrap [OF b nl] tags_wrap [OF c nl])
  ultimately show ?thesis by simp
next
  case False
  with assms have "d = []"
    by (simp add: detail_link_def)
  then show ?thesis by (simp add: closed_def)
qed

lemma metaMaxLength_tags:
  assumes "metaMaxLength eng meta = Inr d"
  shows "closed d \<and> set (tags d) \<subseteq> {''p>'', ''st'', ''/s'', ''/p''}"
proof (cases "truthy (get meta ''maxNoteTextLength'')")
  case True
  with assms obtain n where n: "escapeHTML eng (get meta ''maxNoteTextLength'') = Inr n"
    and d: "d = ''<p><strong>Max Note Length:</strong> '' @ n @ ''</p>''"
    by (auto simp: metaMaxLength_def bind_result_def split: sum.splits)
  from n have nl: "CHR ''<'' \<notin> set n" by (rule escapeHTML_no_lt)
  have a: "closed ''<p><strong>Max Note Length:</strong> ''" and b: "closed ''</p>''"
    by (simp_all add: closed_def)
  show ?thesis
    unfolding d using closed_wrap [OF a nl b] tags_wrap [OF a nl] by simp
next
  case False
  with assms have "d = []"
    by (simp add: metaMaxLength_def)
  then show ?thesis by (simp add: closed_def)
qed

lemma bind_result_InrE:
  assumes "bind_result r f = Inr y"
  obtains x where "r = Inr x" and "f x = Inr y"
  using assms by (cases r) (simp_all add: bind_result_def)

lemma append_rules_tags:
  "append_rules eng rules acc = Inr html \<Longrightarrow> closed acc \<Longrightarrow>
   closed html \<and> tags html = tags acc @ concat (replicate (length rules) [''li'', ''/l''])"
proof (induction rules arbitrary: acc)
  case Nil
  then show ?case by simp
next
  case (Cons rule rules)
  from Cons.prems(1) obtain r where r: "escapeHTML eng rule = Inr r"
    and rest: "append_rules eng rules (acc @ ''<li>'' @ r @ ''</li>'') = Inr html"
    by (auto split: sum.splits)
  from r have nl: "CHR ''<'' \<notin> set r" by (rule escapeHTML_no_lt)
  have a: "closed ''<li>''" and b: "closed ''</li>''"
    by (simp_all add: closed_def)
  have c: "closed (acc @ ''<li>'' @ r @ ''</li>'')"
    by (intro closed_append Cons.prems(2) closed_wrap a b nl)
  have "tags (acc @ ''<li>'' @ r @ ''</li>'') = tags acc @ tags ''<li>'' @ tags ''</li>''"
    by (simp only: tags_append [OF Cons.prems(2)] tags_wrap [OF a nl])
  then have t: "tags (acc @ ''<li>'' @ r @ ''</li>'') = tags acc @ [''li'', ''/l'']"
    by simp
  from Cons.IH [OF rest c] t show ?case
    by simp
qed

lemma append_rules_strings:
  "append_rules eng (map JStr ss) acc =
     Inr (acc @ concat (map (\<lambda>s. ''<li>'' @ replace_special s @ ''</li>'') ss))"
  by (induction ss arbitrary: acc) simp_all

lemma metaRulesHtml_strings:
  assumes "get meta ''serverRules'' = JArr (map JStr ss)" and "ss \<noteq> []"
  shows "metaRulesHtml eng meta =
           Inr (''<p><strong>Server Rules:</strong></p><ul class=\"rules\">''
                @ concat (map (\<lambda>s. ''<li>'' @ replace_special s @ ''</li>'') ss) @ ''</ul>'')"
  using assms by (simp add: metaRulesHtml_def bind_result_def append_rules_strings)

lemma metaRulesHtml_tags:
  assumes "metaRulesHtml eng meta = Inr d"
  shows "closed d \<and>
         tags d =
           (if isArray (get meta ''serverRules'') \<and> elements (get meta ''serverRules'') \<noteq> []
            then [''p>'', ''st'', ''/s'', ''/p'', ''ul'']
                 @ concat (replicate (length (elements (get meta ''serverRules''))) [''li'', ''/l''])
                 @ [''/u'']
            else [])"
proof (cases "isArray (get meta ''serverRules'') \<and> elements (get meta ''serverRules'') \<noteq> []")
  case True
  then have tr: "truthy (get meta ''serverRules'')"
    by (cases "get meta ''serverRules''") simp_all
  with True assms obtain html where
    html: "append_rules eng (elements (get meta ''serverRules''))
             ''<p><strong>Server Rules:</strong></p><ul class=\"rules\">'' = Inr html"
    and d: "d = html @ ''</ul>''"
    by (auto simp: metaRulesHtml_def bind_result_def Let_def split: sum.splits)
  have a: "closed ''<p><strong>Server Rules:</strong></p><ul class=\"rules\">''"
    and b: "closed ''</ul>''"
    by (simp_all add: closed_def)
  from append_rules_tags [OF html a]
  have c: "closed html"
    and t: "tags html = tags ''<p><strong>Server Rules:</strong></p><ul class=\"rules\">''
              @ concat (replicate (length (elements (get meta ''serverRules''))) [''li'', ''/l''])"
    by simp_all
  have "closed d"
    unfolding d by (intro closed_append c b)
  moreover have "tags d = tags html @ tags ''</ul>''"
    unfolding d by (rule tags_append [OF c])
  ultimately show ?thesis
    using True t by simp
next
  case False
  with assms have "d = []"
    by (auto simp: metaRulesHtml_def Let_def)
  with False show ?thesis
    by (simp add: closed_def)
qed

lemma render_online_Inr:
  assumes "render_online eng host meta = Inr html"
  obtains desc contact icon banner tos privacy maxLength rules versionText adminText emailText
  where "descHtml eng (health_of host meta) = Inr desc"
    and "contactLinkHtml eng (health_of host meta) = Inr contact"
    and "metaIcon eng meta = Inr icon"
    and "metaBanner eng meta = Inr banner"
    and "metaTos eng meta = Inr tos"
    and "metaPrivacy eng meta = Inr privacy"
    and "metaMaxLength eng meta = Inr maxLength"
    and "metaRulesHtml eng meta = Inr rules"
    and "escapeHTML eng (js_or (version (health_of host meta)) (JStr ''N/A'')) = Inr versionText"
    and "escapeHTML eng (js_or (adminName (health_of host meta)) (JStr ''N/A'')) = Inr adminText"
    and "escapeHTML eng (js_or (adminEmail (health_of host meta)) (JStr ''N/A'')) = Inr emailText"
    and "html =
           ''\<newline>      <p><strong>Host:</strong> '' @ replace_special host
           @ ''</p>\<newline>      <p><strong>Status:</strong> <span style=\"color:#7ee787;\">Online</span></p>\<newline>      ''
           @ desc
           @ ''\<newline>      <p><strong>Version:</strong> '' @ versionText
           @ ''</p>\<newline>      <p><strong>Admin:</strong> '' @ adminText
           @ ''</p>\<newline>      <p><strong>Email:</strong> '' @ emailText
           @ ''</p>\<newline>      <p><strong>Contact:</strong> '' @ contact
           @ ''</p>\<newline>      \<newline>      <hr>\<newline>      \<newline>      <p style=\"font-weight:bold; opacity: 0.8;\">--- Server Details (from /api/meta) ---</p>\<newline>      ''
           @ maxLength @ ''\<newline>      ''
           @ icon @ ''\<newline>      ''
           @ banner @ ''\<newline>      ''
           @ tos @ ''\<newline>      ''
           @ privacy @ ''\<newline>      ''
           @ rules @ ''\<newline>    ''"
proof -
  from assms have nn: "\<not> (meta = JNull \<or> meta = JUndefined)"
    by (auto simp: render_online_def)
  have hh: "health_host (health_of host meta) = host"
    by (simp add: health_of_def)
  from assms nn show ?thesis
    unfolding render_online_def Let_def
    apply (simp only: if_False hh escapeHTML_JStr)
    apply (elim bind_result_InrE)
    apply (rule that; (assumption | simp only: sum.inject)?)
    apply simp
    done
qed

lemma render_online_markup:
  assumes "render_online eng host meta = Inr html"
  shows "\<exists>rest. tags html =
           rest @
           (if isArray (get meta ''serverRules'') \<and> elements (get meta ''serverRules'') \<noteq> []
            then [''p>'', ''st'', ''/s'', ''/p'', ''ul'']
                 @ concat (replicate (length (elements (get meta ''serverRules''))) [''li'', ''/l''])
                 @ [''/u'']
            else [])
         \<and> set rest \<subseteq> {''p>'', ''st'', ''/s'', ''/p'', ''p '', ''a '', ''/a'', ''sp'', ''hr''}"
proof -
  from assms obtain desc contact icon banner tos privacy maxLength rules
      versionText adminText emailText
    where p: "descHtml eng (health_of host meta) = Inr desc"
      "contactLinkHtml eng (health_of host meta) = Inr contact"
      "metaIcon eng meta = Inr icon"
      "metaBanner eng meta = Inr banner"
      "metaTos eng meta = Inr tos"
      "metaPrivacy eng meta = Inr privacy"
      "metaMaxLength eng meta = Inr maxLength"
      "metaRulesHtml eng meta = Inr rules"
    and e: "escapeHTML eng (js_or (version (health_of host meta)) (JStr ''N/A'')) = Inr versionText"
      "escapeHTML eng (js_or (adminName (health_of host meta)) (JStr ''N/A'')) = Inr adminText"
      "escapeHTML eng (js_or (adminEmail (health_of host meta)) (JStr ''N/A'')) = Inr emailText"
    and html: "html =
           ''\<newline>      <p><strong>Host:</strong> '' @ replace_special host
           @ ''</p>\<newline>      <p><strong>Status:</strong> <span style=\"color:#7ee787;\">Online</span></p>\<newline>      ''
           @ desc
           @ ''\<newline>      <p><strong>Version:</strong> '' @ versionText
           @ ''</p>\<newline>      <p><strong>Admin:</strong> '' @ adminText
           @ ''</p>\<newline>      <p><strong>Email:</strong> '' @ emailText
           @ ''</p>\<newline>      <p><strong>Contact:</strong> '' @ contact
           @ ''</p>\<newline>      \<newline>      <hr>\<newline>      \<newline>      <p style=\"font-weight:bold; opacity: 0.8;\">--- Server Details (from /api/meta) ---</p>\<newline>      ''
           @ maxLength @ ''\<newline>      ''
           @ icon @ ''\<newline>      ''
           @ banner @ ''\<newline>      ''
           @ tos @ ''\<newline>      ''
           @ privacy @ ''\<newline>      ''
           @ rules @ ''\<newline>    ''"
    by (rule render_online_Inr)
  have nl: "CHR ''<'' \<notin> set (replace_special host)" "CHR ''<'' \<notin> set versionText"
    "CHR ''<'' \<notin> set adminText" "CHR ''<'' \<notin> set emailText"
    using replace_special_no_markup [of host] e by (auto dest: escapeHTML_no_lt)
  note d = descHtml_tags [OF p(1)]
  note c = contactLinkHtml_tags [OF p(2)]
  have i: "closed icon \<and> set (tags icon) \<subseteq> {''p>'', ''st'', ''/s'', ''/p'', ''a '', ''/a''}"
    using p(3) unfolding metaIcon_def by (rule detail_link_tags) simp
  have b: "closed banner \<and> set (tags banner) \<subseteq> {''p>'', ''st'', ''/s'', ''/p'', ''a '', ''/a''}"
    using p(4) unfolding metaBanner_def by (rule detail_link_tags) simp
  have t: "closed tos \<and> set (tags tos) \<subseteq> {''p>'', ''st'', ''/s'', ''/p'', ''a '', ''/a''}"
    using p(5) unfolding metaTos_def by (rule detail_link_tags) simp
  have v: "closed privacy \<and> set (tags privacy) \<subseteq> {''p>'', ''st'', ''/s'', ''/p'', ''a '', ''/a''}"
    using p(6) unfolding metaPrivacy_def by (rule detail_link_tags) simp
  note m = metaMaxLength_tags [OF p(7)]
  note r = metaRulesHtml_tags [OF p(8)]
  define rest where "rest =
      [''p>'', ''st'', ''/s'', ''/p'', ''p>'', ''st'', ''/s'', ''sp'', ''/s'', ''/p''] @ tags desc
      @ [''p>'', ''st'', ''/s'', ''/p'', ''p>'', ''st'', ''/s'', ''/p'', ''p>'', ''st'', ''/s'', ''/p'',
         ''p>'', ''st'', ''/s''] @ tags contact
      @ [''/p'', ''hr'', ''p '', ''/p''] @ tags maxLength @ tags icon @ tags banner @ tags tos
      @ tags privacy"
  define T where "T = {''p>'', ''st'', ''/s'', ''/p'', ''p '', ''a '', ''/a'', ''sp'', ''hr''}"
  have eq: "tags html = rest @ tags rules"
    unfolding html rest_def using nl d c i b t v m r
    by (simp add: tags_append tags_no_lt_append)
  have T1: "{''p>'', ''st'', ''/s'', ''/p'', ''p ''} \<subseteq> T"
    and T2: "{''a '', ''/a''} \<subseteq> T"
    and T3: "{''p>'', ''st'', ''/s'', ''/p'', ''a '', ''/a''} \<subseteq> T"
    and T4: "{''p>'', ''st'', ''/s'', ''/p''} \<subseteq> T"
    unfolding T_def by simp_all
  have pieces: "set (tags desc) \<subseteq> T" "set (tags contact) \<subseteq> T" "set (tags maxLength) \<subseteq> T"
    "set (tags icon) \<subseteq> T" "set (tags banner) \<subseteq> T" "set (tags tos) \<subseteq> T"
    "set (tags privacy) \<subseteq> T"
    using d [THEN conjunct2, THEN order_trans, OF T1] c [THEN conjunct2, THEN order_trans, OF T2]
      m [THEN conjunct2, THEN order_trans, OF T4] i [THEN conjunct2, THEN order_trans, OF T3]
      b [THEN conjunct2, THEN order_trans, OF T3] t [THEN conjunct2, THEN order_trans, OF T3]
      v [THEN conjunct2, THEN order_trans, OF T3]
    by this+
  have fixed: "set [''p>'', ''st'', ''/s'', ''/p'', ''p>'', ''st'', ''/s'', ''sp'', ''/s'', ''/p''] \<subseteq> T"
    "set [''p>'', ''st'', ''/s'', ''/p'', ''p>'', ''st'', ''/s'', ''/p'', ''p>'', ''st'', ''/s'', ''/p'',
         ''p>'', ''st'', ''/s''] \<subseteq> T"
    "set [''/p'', ''hr'', ''p '', ''/p''] \<subseteq> T"
    unfolding T_def by simp_all
  have sub: "set rest \<subseteq> T"
    unfolding rest_def using pieces fixed by (simp only: set_append Un_subset_iff simp_thms)
  from r have "tags rules =
           (if isArray (get meta ''serverRules'') \<and> elements (get meta ''serverRules'') \<noteq> []
            then [''p>'', ''st'', ''/s'', ''/p'', ''ul'']
                 @ concat (replicate (length (elements (get meta ''serverRules''))) [''li'', ''/l''])
                 @ [''/u'']
            else [])" ..
  with eq have "tags html =
           rest @
           (if isArray (get meta ''serverRules'') \<and> elements (get meta ''serverRules'') \<noteq> []
            then [''p>'', ''st'', ''/s'', ''/p'', ''ul'']
                 @ concat (replicate (length (elements (get meta ''serverRules''))) [''li'', ''/l''])
                 @ [''/u'']
            else [])"
    by (simp only:)
  with sub show ?thesis
    unfolding T_def by (intro exI [of _ rest] conjI)
qed

lemma render_offline_tags:
  "tags (''\<newline>      <p><strong>Host:</strong> '' @ replace_special host
          @ ''</p>\<newline>      <p><strong>Status:</strong> <span style=\"color:#f88;\">Offline</span></p>\<newline>      <p><strong>Error:</strong> ''
          @ replace_special msg @ ''</p>\<newline>    '')
   = [''p>'', ''st'', ''/s'', ''/p'', ''p>'', ''st'', ''/s'', ''sp'', ''/s'', ''/p'',
      ''p>'', ''st'', ''/s'', ''/p'']"
proof -
  have nl: "CHR ''<'' \<notin> set (replace_special host)" "CHR ''<'' \<notin> set (replace_special msg)"
    using replace_special_no_markup [of host] replace_special_no_markup [of msg] by auto
  then show ?thesis
    by (simp add: tags_no_lt_append)
qed

lemma no_script_tag:
  "[CHR ''s'', CHR ''c''] \<notin> set (tags html) \<Longrightarrow> \<not> sublist ''<script'' html"
  using sublist_tag [of "CHR ''s''" "CHR ''c''" "''ript''" html] by auto

lemma render_foo:
  "render_online eng ''example.com'' foo_meta = Inr (page ''<p><strong>Description:</strong> N/A</p>'' ''1.0'' [])"
  by (simp add: render_online_def foo_meta_def health_of_def js_or_def descHtml_def contactLinkHtml_def
      metaIcon_def metaBanner_def metaTos_def metaPrivacy_def detail_link_def metaMaxLength_def
      metaRulesHtml_def bind_result_def page_def special_def)

lemma render_script:
  "render_online eng ''example.com'' script_meta =
     Inr (page ''<p><strong>Description:</strong></p><p class=\"description\">&lt;script&gt;alert(1)&lt;/script&gt;</p>'' ''N/A'' [])"
  by (simp add: render_online_def script_meta_def health_of_def js_or_def descHtml_def contactLinkHtml_def
      metaIcon_def metaBanner_def metaTos_def metaPrivacy_def detail_link_def metaMaxLength_def
      metaRulesHtml_def bind_result_def page_def special_def replacement_def entities_def)

lemma render_rules:
  "render_online eng ''example.com'' rules_meta =
     Inr (page ''<p><strong>Description:</strong> N/A</p>'' ''N/A''
       ''<p><strong>Server Rules:</strong></p><ul class=\"rules\"><li>Be nice</li><li>No spam</li></ul>'')"
  by (simp add: render_online_def rules_meta_def health_of_def js_or_def descHtml_def contactLinkHtml_def
      metaIcon_def metaBanner_def metaTos_def metaPrivacy_def detail_link_def metaMaxLength_def
      metaRulesHtml_def bind_result_def page_def special_def replacement_def entities_def)

text \<open>
  C7: \<open>escapeHTML\<close> replaces every \<^verbatim>\<open>&\<close>, \<^verbatim>\<open><\<close>, \<^verbatim>\<open>>\<close>, double quote and
  single quote of a string by its entity and leaves the other characters as they are, so
  \<^verbatim>\<open><script>\<close> becomes \<^verbatim>\<open>&lt;script&gt;\<close>. Whatever value it is given, its result
  holds no \<^verbatim>\<open><\<close>, \<^verbatim>\<open>>\<close> or quote. Every value that the page and the error block
  interpolate has gone through it, and neither markup contains \<^verbatim>\<open><script\<close>, whatever
  the user typed and whatever the server sent.
\<close>

theorem escapeHTML_neutralises_markup:
  "escapeHTML eng (JStr s) =
     Inr (concat (map (\<lambda>c. if c = CHR ''&'' then ''&amp;''
                            else if c = CHR ''<'' then ''&lt;''
                            else if c = CHR ''>'' then ''&gt;''
                            else if c = CHR 0x22 then ''&quot;''
                            else if c = CHR 0x27 then ''&#39;''
                            else [c]) s))
   \<and> escapeHTML eng (JStr ''<script>'') = Inr ''&lt;script&gt;''
   \<and> (\<forall>t. escapeHTML eng v = Inr t \<longrightarrow>
          set t \<inter> {CHR ''<'', CHR ''>'', CHR 0x22, CHR 0x27} = {})
   \<and> (\<forall>html. render_online eng host meta = Inr html \<longrightarrow> \<not> sublist ''<script'' html)
   \<and> (\<forall>html. render_offline eng host e = Inr html \<longrightarrow> \<not> sublist ''<script'' html)"
proof (intro conjI allI impI)
  show "escapeHTML eng (JStr s) =
     Inr (concat (map (\<lambda>c. if c = CHR ''&'' then ''&amp;''
                            else if c = CHR ''<'' then ''&lt;''
                            else if c = CHR ''>'' then ''&gt;''
                            else if c = CHR 0x22 then ''&quot;''
                            else if c = CHR 0x27 then ''&#39;''
                            else [c]) s))"
    by (simp only: escapeHTML_JStr replace_special_concat)
  show "escapeHTML eng (JStr ''<script>'') = Inr ''&lt;script&gt;''"
    by (simp add: special_def replacement_def entities_def)
next
  fix t assume "escapeHTML eng v = Inr t"
  then obtain s where "t = replace_special s"
    by (auto dest: escapeHTML_Inr)
  then show "set t \<inter> {CHR ''<'', CHR ''>'', CHR 0x22, CHR 0x27} = {}"
    by (simp only: replace_special_no_markup)
next
  fix html assume "render_online eng host meta = Inr html"
  from render_online_markup [OF this] obtain rest where
    eq: "tags html =
           rest @
           (if isArray (get meta ''serverRules'') \<and> elements (get meta ''serverRules'') \<noteq> []
            then [''p>'', ''st'', ''/s'', ''/p'', ''ul'']
                 @ concat (replicate (length (elements (get meta ''serverRules''))) [''li'', ''/l''])
                 @ [''/u'']
            else [])"
    and sub: "set rest \<subseteq> {''p>'', ''st'', ''/s'', ''/p'', ''p '', ''a '', ''/a'', ''sp'', ''hr''}"
    by blast
  have "''sc'' \<notin> set rest"
    using sub by auto
  then have "''sc'' \<notin> set (tags html)"
    unfolding eq by auto
  then show "\<not> sublist ''<script'' html"
    by (intro no_script_tag) simp
next
  fix html assume "render_offline eng host e = Inr html"
  then have "html = ''\<newline>      <p><strong>Host:</strong> '' @ replace_special host
          @ ''</p>\<newline>      <p><strong>Status:</strong> <span style=\"color:#f88;\">Offline</span></p>\<newline>      <p><strong>Error:</strong> ''
          @ replace_special (message e) @ ''</p>\<newline>    ''"
    by (simp only: render_offline_eq sum.inject)
  then have "tags html = [''p>'', ''st'', ''/s'', ''/p'', ''p>'', ''st'', ''/s'', ''sp'', ''/s'', ''/p'',
      ''p>'', ''st'', ''/s'', ''/p'']"
    by (simp only: render_offline_tags)
  then have "''sc'' \<notin> set (tags html)"
    by simp
  then show "\<not> sublist ''<script'' html"
    by (intro no_script_tag) simp
qed

theorem escapeHTML_neutralises_markup_witness:
  "escapeHTML v8 (JArr [JStr ''<b>'', JNum 5]) = Inr ''&lt;b&gt;,5''
   \<and> set ''&lt;b&gt;,5'' \<inter> {CHR ''<'', CHR ''>'', CHR 0x22, CHR 0x27} = {}
   \<and> render_online v8 ''example.com'' script_meta =
       Inr (page ''<p><strong>Description:</strong></p><p class=\"description\">&lt;script&gt;alert(1)&lt;/script&gt;</p>'' ''N/A'' [])
   \<and> \<not> sublist ''<script''
         (page ''<p><strong>Description:</strong></p><p class=\"description\">&lt;script&gt;alert(1)&lt;/script&gt;</p>'' ''N/A'' [])
   \<and> render_offline v8 ''example.com'' (Error ''<script>'') =
       Inr (''\<newline>      <p><strong>Host:</strong> example.com</p>''
            @ ''\<newline>      <p><strong>Status:</strong> <span style=\"color:#f88;\">Offline</span></p>''
            @ ''\<newline>      <p><strong>Error:</strong> &lt;script&gt;</p>''
            @ ''\<newline>    '')
   \<and> \<not> sublist ''<script''
        (''\<newline>      <p><strong>Host:</strong> example.com</p>''
            @ ''\<newline>      <p><strong>Status:</strong> <span style=\"color:#f88;\">Offline</span></p>''
            @ ''\<newline>      <p><strong>Error:</strong> &lt;script&gt;</p>''
            @ ''\<newline>    '')"
proof -
  have h1: "escapeHTML v8 (JArr [JStr ''<b>'', JNum 5]) = Inr ''&lt;b&gt;,5''"
    by (simp add: escapeHTML_def js_or_def int_to_string_def dec.simps special_def
        replacement_def entities_def)
  note h2 = render_script [of v8]
  have h3: "render_offline v8 ''example.com'' (Error ''<script>'') =
       Inr (''\<newline>      <p><strong>Host:</strong> example.com</p>''
            @ ''\<newline>      <p><strong>Status:</strong> <span style=\"color:#f88;\">Offline</span></p>''
            @ ''\<newline>      <p><strong>Error:</strong> &lt;script&gt;</p>''
            @ ''\<newline>    '')"
    by (simp add: render_offline_eq Error_def special_def replacement_def entities_def)
  from escapeHTML_neutralises_markup
    [of v8 "[]" "JArr [JStr ''<b>'', JNum 5]" "''example.com''" script_meta "Error ''<script>''"]
    h1 h2 h3
  show ?thesis
    by (simp only: simp_thms)
qed

lemma count_list_items:
  "count_list (concat (replicate n [''li'', ''/l''])) ''li'' = n"
  "count_list (concat (replicate n [''li'', ''/l''])) ''ul'' = 0"
  by (induction n) simp_all

lemma no_tag:
  "[x, y] \<notin> set (tags html) \<Longrightarrow> \<not> sublist [CHR ''<'', x, y] html"
  using sublist_tag [of x y "[]" html] by auto

text \<open>When rendering cannot throw.\<close>

lemma to_string_total:
  "printable v \<Longrightarrow> \<exists>s. to_string eng v = Inr s"
  "(\<forall>x \<in> set xs. printable x) \<Longrightarrow> \<exists>s. join eng xs = Inr s"
  "printable v' \<Longrightarrow> \<exists>s. element_string eng v' = Inr s"
  by (induction eng v and eng xs and eng v' rule: to_string_join_element_string.induct)
     (auto split: sum.splits)

lemma escapeHTML_total:
  "printable v \<Longrightarrow> \<exists>t. escapeHTML eng v = Inr t"
  using to_string_total(1) [of "js_or v (JStr [])" eng]
  by (auto simp: escapeHTML_def js_or_def split: sum.splits)

lemma printable_js_or:
  "printable a \<Longrightarrow> printable b \<Longrightarrow> printable (js_or a b)"
  by (simp add: js_or_def)

lemma append_rules_total:
  "(\<forall>x \<in> set rules. printable x) \<Longrightarrow> \<exists>html. append_rules eng rules acc = Inr html"
proof (induction rules arbitrary: acc)
  case Nil
  show ?case by simp
next
  case (Cons rule rules)
  from Cons.prems obtain r where "escapeHTML eng rule = Inr r"
    using escapeHTML_total [of rule eng] by auto
  with Cons show ?case by simp
qed

lemma guarded_total:
  "printable v \<Longrightarrow>
   \<exists>d. (if truthy v then bind_result (escapeHTML eng v) (\<lambda>u. Inr (f u)) else Inr c) = Inr d"
  using escapeHTML_total [of v eng] by (auto simp: bind_result_def)

lemma metaRulesHtml_total:
  assumes "printable (get meta ''serverRules'')"
  shows "\<exists>d. metaRulesHtml eng meta = Inr d"
proof (cases "get meta ''serverRules''")
  case (JArr xs)
  with assms have "\<forall>x \<in> set xs. printable x"
    by simp
  from append_rules_total [OF this] obtain html where
    "append_rules eng xs ''<p><strong>Server Rules:</strong></p><ul class=\"rules\">'' = Inr html"
    by blast
  with JArr show ?thesis
    by (simp add: metaRulesHtml_def bind_result_def)
qed (simp_all add: metaRulesHtml_def)

lemma render_online_total:
  assumes nn: "meta \<noteq> JNull" "meta \<noteq> JUndefined"
    and p: "\<And>k. k \<in> set [''version'', ''description'', ''maintainerName'', ''maintainerEmail'',
                 ''inquiryUrl'', ''repositoryUrl'', ''iconUrl'', ''bannerUrl'', ''tosUrl'',
                 ''privacyPolicyUrl'', ''maxNoteTextLength'', ''serverRules''] \<Longrightarrow> printable (get meta k)"
  shows "\<exists>html. render_online eng host meta = Inr html"
proof -
  have pr: "printable (get meta ''version'')" "printable (get meta ''description'')"
    "printable (get meta ''maintainerName'')" "printable (get meta ''maintainerEmail'')"
    "printable (get meta ''inquiryUrl'')" "printable (get meta ''repositoryUrl'')"
    "printable (get meta ''iconUrl'')" "printable (get meta ''bannerUrl'')"
    "printable (get meta ''tosUrl'')" "printable (get meta ''privacyPolicyUrl'')"
    "printable (get meta ''maxNoteTextLength'')" "printable (get meta ''serverRules'')"
    by (rule p, simp)+
  have ph: "printable (description (health_of host meta))"
    "printable (contactLink (health_of host meta))"
    "printable (js_or (version (health_of host meta)) (JStr ''N/A''))"
    "printable (js_or (adminName (health_of host meta)) (JStr ''N/A''))"
    "printable (js_or (adminEmail (health_of host meta)) (JStr ''N/A''))"
    using pr by (simp_all add: health_of_def printable_js_or)
  obtain desc where 1: "descHtml eng (health_of host meta) = Inr desc"
    unfolding descHtml_def by (rule exE [OF guarded_total [OF ph(1)]])
  obtain contact where 2: "contactLinkHtml eng (health_of host meta) = Inr contact"
    unfolding contactLinkHtml_def by (rule exE [OF guarded_total [OF ph(2)]])
  obtain icon where 3: "metaIcon eng meta = Inr icon"
    unfolding metaIcon_def detail_link_def by (rule exE [OF guarded_total [OF pr(7)]])
  obtain banner where 4: "metaBanner eng meta = Inr banner"
    unfolding metaBanner_def detail_link_def by (rule exE [OF guarded_total [OF pr(8)]])
  obtain tos where 5: "metaTos eng meta = Inr tos"
    unfolding metaTos_def detail_link_def by (rule exE [OF guarded_total [OF pr(9)]])
  obtain privacy where 6: "metaPrivacy eng meta = Inr privacy"
    unfolding metaPrivacy_def detail_link_def by (rule exE [OF guarded_total [OF pr(10)]])
  obtain maxLength where 7: "metaMaxLength eng meta = Inr maxLength"
    unfolding metaMaxLength_def by (rule exE [OF guarded_total [OF pr(11)]])
  obtain rules where 8: "metaRulesHtml eng meta = Inr rules"
    using metaRulesHtml_total [OF pr(12)] by blast
  obtain versionText where
    9: "escapeHTML eng (js_or (version (health_of host meta)) (JStr ''N/A'')) = Inr versionText"
    using escapeHTML_total [OF ph(3)] by blast
  obtain adminText where
    10: "escapeHTML eng (js_or (adminName (health_of host meta)) (JStr ''N/A'')) = Inr adminText"
    using escapeHTML_total [OF ph(4)] by blast
  obtain emailText where
    11: "escapeHTML eng (js_or (adminEmail (health_of host meta)) (JStr ''N/A'')) = Inr emailText"
    using escapeHTML_total [OF ph(5)] by blast
  show ?thesis
    unfolding render_online_def Let_def
    by (simp only: nn 1 2 3 4 5 6 7 8 9 10 11 bind_result_def sum.case escapeHTML_JStr
        simp_thms if_False) blast
qed

lemma getMeta_post_result:
  assumes "sg = \<lparr>created = clock w, timeout = 5000\<rparr>"
    and "settle net (metaUrl host) (post_init sg) (clock w) = (Inr r, t)"
    and "ok r"
  shows "fst (getMeta net host w) = json r"
  using getMeta_cases [OF assms(1,2)] assms(3) by auto

text \<open>
  C8, as stated, fails for metadata that cannot be rendered. With rules
  \<^verbatim>\<open>["Be nice", "No spam"]\<close> and a description that is an object with an own
  property \<^verbatim>\<open>toString\<close>, converting the description throws inside the \<^verbatim>\<open>try\<close>
  block, and \<open>doSearch\<close> shows the error block, which has no list.
\<close>

theorem rules_list_counterexample:
  "get odd_meta ''serverRules'' = JArr (map JStr [''Be nice'', ''No spam''])
   \<and> render_online v8 ''example.com'' odd_meta =
       Inl (TypeError ''Cannot convert object to primitive value'')
   \<and> resultDiv (snd (doSearch (server (120, replies 200 odd_meta) (80, replies 200 odd_meta)) v8
                      (idle ''example.com''))) =
       InnerHTML
         (''\<newline>      <p><strong>Host:</strong> example.com</p>''
          @ ''\<newline>      <p><strong>Status:</strong> <span style=\"color:#f88;\">Offline</span></p>''
          @ ''\<newline>      <p><strong>Error:</strong> Cannot convert object to primitive value</p>''
          @ ''\<newline>    '')
   \<and> \<not> sublist ''<li''
         (''\<newline>      <p><strong>Host:</strong> example.com</p>''
          @ ''\<newline>      <p><strong>Status:</strong> <span style=\"color:#f88;\">Offline</span></p>''
          @ ''\<newline>      <p><strong>Error:</strong> Cannot convert object to primitive value</p>''
          @ ''\<newline>    '')"
proof -
  let ?net = "server (120, replies 200 odd_meta) (80, replies 200 odd_meta)"
  let ?w = "(idle ''example.com'')\<lparr>resultDiv := TextContent loading_text\<rparr>"
  let ?sg = "\<lparr>created = clock ?w, timeout = 5000\<rparr>"
  have 1: "get odd_meta ''serverRules'' = JArr (map JStr [''Be nice'', ''No spam''])"
    by (simp add: odd_meta_def)
  have 2: "render_online v8 ''example.com'' odd_meta =
       Inl (TypeError ''Cannot convert object to primitive value'')"
    by (simp add: render_online_def odd_meta_def health_of_def js_or_def descHtml_def
        escapeHTML_def bind_result_def v8_def)
  have t: "trim ''example.com'' = ''example.com''"
    by code_simp
  have st: "settle ?net (metaUrl ''example.com'') (post_init ?sg) (clock ?w)
              = (Inr \<lparr>status = 200, json = Inr odd_meta\<rparr>, 120)"
    by (simp add: idle_def settle_server_post replies_def)
  have "fst (getMeta ?net ''example.com'' ?w) = Inr odd_meta"
    using getMeta_post_result [OF refl st] by (simp add: ok_def)
  then obtain w1 where g: "getMeta ?net ''example.com'' ?w = (Inr odd_meta, w1)"
    by (cases "getMeta ?net ''example.com'' ?w") simp
  have 3: "resultDiv (snd (doSearch ?net v8 (idle ''example.com''))) =
       InnerHTML
         (''\<newline>      <p><strong>Host:</strong> example.com</p>''
          @ ''\<newline>      <p><strong>Status:</strong> <span style=\"color:#f88;\">Offline</span></p>''
          @ ''\<newline>      <p><strong>Error:</strong> Cannot convert object to primitive value</p>''
          @ ''\<newline>    '')"
    using t g 2
    by (simp add: doSearch_def idle_def Let_def bind_result_def catch_search_def
        render_offline_eq TypeError_def special_def)
  have "tags (''\<newline>      <p><strong>Host:</strong> example.com</p>''
          @ ''\<newline>      <p><strong>Status:</strong> <span style=\"color:#f88;\">Offline</span></p>''
          @ ''\<newline>      <p><strong>Error:</strong> Cannot convert object to primitive value</p>''
          @ ''\<newline>    '')
        = [''p>'', ''st'', ''/s'', ''/p'', ''p>'', ''st'', ''/s'', ''sp'', ''/s'', ''/p'',
           ''p>'', ''st'', ''/s'', ''/p'']"
    by simp
  then have 4: "\<not> sublist ''<li''
         (''\<newline>      <p><strong>Host:</strong> example.com</p>''
          @ ''\<newline>      <p><strong>Status:</strong> <span style=\"color:#f88;\">Offline</span></p>''
          @ ''\<newline>      <p><strong>Error:</strong> Cannot convert object to primitive value</p>''
          @ ''\<newline>    '')"
    by (intro no_tag [of "CHR ''l''" "CHR ''i''", simplified]) simp
  from 1 2 3 4 show ?thesis
    by (intro conjI)
qed

text \<open>
  C8, amended: metadata that is not \<^verbatim>\<open>null\<close> and whose displayed properties hold
  no object with an own property \<^verbatim>\<open>toString\<close> is rendered. In a page that was
  rendered, a \<^verbatim>\<open>serverRules\<close> that is a non-empty array of strings gives a rules list
  at the end of the markup, with one item per element, in the order of the array, each
  the escaped string; the page has one \<^verbatim>\<open><ul\<close> and as many \<^verbatim>\<open><li\<close> as the array
  has elements. When \<^verbatim>\<open>serverRules\<close> is absent, is not an array or is the empty
  array, the page has no \<^verbatim>\<open><ul\<close> and no \<^verbatim>\<open><li\<close>.
\<close>

theorem rules_list_rendered:
  "(meta \<noteq> JNull \<and> meta \<noteq> JUndefined
      \<and> (\<forall>k \<in> set [''version'', ''description'', ''maintainerName'', ''maintainerEmail'',
                 ''inquiryUrl'', ''repositoryUrl'', ''iconUrl'', ''bannerUrl'', ''tosUrl'',
                 ''privacyPolicyUrl'', ''maxNoteTextLength'', ''serverRules'']. printable (get meta k))
      \<longrightarrow> (\<exists>rendered. render_online eng host meta = Inr rendered))
   \<and> (render_online eng host meta = Inr html \<longrightarrow>
        (get meta ''serverRules'' = JArr (map JStr ss) \<and> ss \<noteq> [] \<longrightarrow>
            (\<exists>pre. html = pre @ ''<p><strong>Server Rules:</strong></p><ul class=\"rules\">''
                         @ concat (map (\<lambda>s. ''<li>'' @ replace_special s @ ''</li>'') ss)
                         @ ''</ul>'' @ ''\<newline>    '')
            \<and> count_list (tags html) ''ul'' = 1
            \<and> count_list (tags html) ''li'' = length ss)
        \<and> (\<not> (isArray (get meta ''serverRules'') \<and> elements (get meta ''serverRules'') \<noteq> []) \<longrightarrow>
            \<not> sublist ''<ul'' html \<and> \<not> sublist ''<li'' html))"
proof -
  have total: "\<exists>rendered. render_online eng host meta = Inr rendered"
    if "meta \<noteq> JNull \<and> meta \<noteq> JUndefined
      \<and> (\<forall>k \<in> set [''version'', ''description'', ''maintainerName'', ''maintainerEmail'',
                 ''inquiryUrl'', ''repositoryUrl'', ''iconUrl'', ''bannerUrl'', ''tosUrl'',
                 ''privacyPolicyUrl'', ''maxNoteTextLength'', ''serverRules'']. printable (get meta k))"
    using that by (intro render_online_total) blast+
  have list: "(get meta ''serverRules'' = JArr (map JStr ss) \<and> ss \<noteq> [] \<longrightarrow>
            (\<exists>pre. html = pre @ ''<p><strong>Server Rules:</strong></p><ul class=\"rules\">''
                         @ concat (map (\<lambda>s. ''<li>'' @ replace_special s @ ''</li>'') ss)
                         @ ''</ul>'' @ ''\<newline>    '')
            \<and> count_list (tags html) ''ul'' = 1
            \<and> count_list (tags html) ''li'' = length ss)
        \<and> (\<not> (isArray (get meta ''serverRules'') \<and> elements (get meta ''serverRules'') \<noteq> []) \<longrightarrow>
            \<not> sublist ''<ul'' html \<and> \<not> sublist ''<li'' html)"
    if rendered: "render_online eng host meta = Inr html"
  proof -
    from render_online_markup [OF rendered] obtain rest where
      eq: "tags html =
             rest @
             (if isArray (get meta ''serverRules'') \<and> elements (get meta ''serverRules'') \<noteq> []
              then [''p>'', ''st'', ''/s'', ''/p'', ''ul'']
                   @ concat (replicate (length (elements (get meta ''serverRules''))) [''li'', ''/l''])
                   @ [''/u'']
              else [])"
      and sub: "set rest \<subseteq> {''p>'', ''st'', ''/s'', ''/p'', ''p '', ''a '', ''/a'', ''sp'', ''hr''}"
      by blast
    have "''ul'' \<notin> set rest" "''li'' \<notin> set rest"
      using sub by auto
    then have rest: "count_list rest ''ul'' = 0" "count_list rest ''li'' = 0"
      "''ul'' \<notin> set rest" "''li'' \<notin> set rest"
      by simp_all
    have present: "(\<exists>pre. html = pre @ ''<p><strong>Server Rules:</strong></p><ul class=\"rules\">''
                           @ concat (map (\<lambda>s. ''<li>'' @ replace_special s @ ''</li>'') ss)
                           @ ''</ul>'' @ ''\<newline>    '')
              \<and> count_list (tags html) ''ul'' = 1
              \<and> count_list (tags html) ''li'' = length ss"
      if rules: "get meta ''serverRules'' = JArr (map JStr ss)" and ne: "ss \<noteq> []"
    proof (intro conjI)
      from rendered obtain pre rules' where
        r: "metaRulesHtml eng meta = Inr rules'" and html: "html = pre @ rules' @ ''\<newline>    ''"
        by (elim render_online_Inr) simp
      from r metaRulesHtml_strings [OF rules ne, of eng]
      have "rules' = ''<p><strong>Server Rules:</strong></p><ul class=\"rules\">''
                  @ concat (map (\<lambda>s. ''<li>'' @ replace_special s @ ''</li>'') ss) @ ''</ul>''"
        by simp
      with html show "\<exists>pre. html = pre @ ''<p><strong>Server Rules:</strong></p><ul class=\"rules\">''
                           @ concat (map (\<lambda>s. ''<li>'' @ replace_special s @ ''</li>'') ss)
                           @ ''</ul>'' @ ''\<newline>    ''"
        by (intro exI [of _ pre]) simp
      from rules ne
      have c: "isArray (get meta ''serverRules'') \<and> elements (get meta ''serverRules'') \<noteq> []"
        and n: "length (elements (get meta ''serverRules'')) = length ss"
        by simp_all
      show "count_list (tags html) ''ul'' = 1"
        unfolding eq using c rest by (simp add: count_list_items)
      show "count_list (tags html) ''li'' = length ss"
        unfolding eq using c n rest by (simp add: count_list_items)
    qed
    have absent: "\<not> sublist ''<ul'' html \<and> \<not> sublist ''<li'' html"
      if "\<not> (isArray (get meta ''serverRules'') \<and> elements (get meta ''serverRules'') \<noteq> [])"
    proof -
      from that eq have "tags html = rest"
        by simp
      with rest have "''ul'' \<notin> set (tags html)" "''li'' \<notin> set (tags html)"
        by simp_all
      then show ?thesis
        using no_tag [of "CHR ''u''" "CHR ''l''" html] no_tag [of "CHR ''l''" "CHR ''i''" html]
        by simp
    qed
    from present absent show ?thesis
      by blast
  qed
  from total list show ?thesis
    by blast
qed

theorem rules_list_rendered_witness:
  "rules_meta \<noteq> JNull \<and> rules_meta \<noteq> JUndefined
   \<and> (\<exists>rendered. render_online v8 ''example.com'' rules_meta = Inr rendered)
   \<and> render_online v8 ''example.com'' rules_meta =
     Inr (page ''<p><strong>Description:</strong> N/A</p>'' ''N/A''
       ''<p><strong>Server Rules:</strong></p><ul class=\"rules\"><li>Be nice</li><li>No spam</li></ul>'')
   \<and> get rules_meta ''serverRules'' = JArr (map JStr [''Be nice'', ''No spam''])
   \<and> count_list (tags (page ''<p><strong>Description:</strong> N/A</p>'' ''N/A''
       ''<p><strong>Server Rules:</strong></p><ul class=\"rules\"><li>Be nice</li><li>No spam</li></ul>''))
         ''li'' = 2
   \<and> count_list (tags (page ''<p><strong>Description:</strong> N/A</p>'' ''N/A''
       ''<p><strong>Server Rules:</strong></p><ul class=\"rules\"><li>Be nice</li><li>No spam</li></ul>''))
         ''ul'' = 1
   \<and> render_online v8 ''example.com'' foo_meta =
       Inr (page ''<p><strong>Description:</strong> N/A</p>'' ''1.0'' [])
   \<and> \<not> isArray (get foo_meta ''serverRules'')
   \<and> \<not> sublist ''<ul'' (page ''<p><strong>Description:</strong> N/A</p>'' ''1.0'' [])
   \<and> \<not> sublist ''<li'' (page ''<p><strong>Description:</strong> N/A</p>'' ''1.0'' [])"
proof -
  have p: "rules_meta \<noteq> JNull" "rules_meta \<noteq> JUndefined"
    "\<forall>k \<in> set [''version'', ''description'', ''maintainerName'', ''maintainerEmail'',
                 ''inquiryUrl'', ''repositoryUrl'', ''iconUrl'', ''bannerUrl'', ''tosUrl'',
                 ''privacyPolicyUrl'', ''maxNoteTextLength'', ''serverRules'']. printable (get rules_meta k)"
    by (simp_all add: rules_meta_def)
  have g: "get rules_meta ''serverRules'' = JArr (map JStr [''Be nice'', ''No spam''])"
    "[''Be nice'', ''No spam''] \<noteq> []"
    by (simp_all add: rules_meta_def)
  have f: "\<not> (isArray (get foo_meta ''serverRules'') \<and> elements (get foo_meta ''serverRules'') \<noteq> [])"
    "\<not> isArray (get foo_meta ''serverRules'')"
    by (simp_all add: foo_meta_def)
  from rules_list_rendered
    [where meta = rules_meta and eng = v8 and host = "''example.com''"
       and ss = "[''Be nice'', ''No spam'']"
       and html = "page ''<p><strong>Description:</strong> N/A</p>'' ''N/A''
       ''<p><strong>Server Rules:</strong></p><ul class=\"rules\"><li>Be nice</li><li>No spam</li></ul>''"]
    render_rules [of v8] g
  have 1: "count_list (tags (page ''<p><strong>Description:</strong> N/A</p>'' ''N/A''
       ''<p><strong>Server Rules:</strong></p><ul class=\"rules\"><li>Be nice</li><li>No spam</li></ul>''))
         ''li'' = 2"
    "count_list (tags (page ''<p><strong>Description:</strong> N/A</p>'' ''N/A''
       ''<p><strong>Server Rules:</strong></p><ul class=\"rules\"><li>Be nice</li><li>No spam</li></ul>''))
         ''ul'' = 1"
    by simp_all
  from rules_list_rendered
    [where meta = foo_meta and eng = v8 and host = "''example.com''" and ss = "[]"
       and html = "page ''<p><strong>Description:</strong> N/A</p>'' ''1.0'' []"]
    render_foo [of v8] f(1)
  have 2: "\<not> sublist ''<ul'' (page ''<p><strong>Description:</strong> N/A</p>'' ''1.0'' [])"
    "\<not> sublist ''<li'' (page ''<p><strong>Description:</strong> N/A</p>'' ''1.0'' [])"
    by blast+
  from rules_list_rendered
    [where meta = rules_meta and eng = v8 and host = "''example.com''" and ss = "[]"
       and html = "[]"] p
  have 3: "\<exists>rendered. render_online v8 ''example.com'' rules_meta = Inr rendered"
    by blast
  from p(1,2) 3 render_rules [of v8] render_foo [of v8] g(1) f(2) 1 2 show ?thesis
    by (intro conjI)
qed

section \<open>Which properties the page depends on\<close>

lemma js_or_cong:
  "a = b \<or> (\<not> truthy a \<and> \<not> truthy b) \<Longrightarrow> js_or a d = js_or b d"
  by (auto simp: js_or_def)

lemma js_or_alias_cong:
  "a1 = a2 \<or> (\<not> truthy a1 \<and> \<not> truthy a2) \<Longrightarrow>
   b1 = b2 \<or> (\<not> truthy b1 \<and> \<not> truthy b2) \<Longrightarrow>
   js_or (js_or a1 b1) JNull = js_or (js_or a2 b2) JNull"
  by (auto simp: js_or_def)

lemma detail_link_cong:
  "a = b \<or> (\<not> truthy a \<and> \<not> truthy b) \<Longrightarrow> detail_link eng label a = detail_link eng label b"
  by (auto simp: detail_link_def)

lemma metaMaxLength_cong:
  "get m1 ''maxNoteTextLength'' = get m2 ''maxNoteTextLength''
     \<or> (\<not> truthy (get m1 ''maxNoteTextLength'') \<and> \<not> truthy (get m2 ''maxNoteTextLength'')) \<Longrightarrow>
   metaMaxLength eng m1 = metaMaxLength eng m2"
  by (auto simp: metaMaxLength_def)

lemma metaRulesHtml_cong:
  "get m1 ''serverRules'' = get m2 ''serverRules''
     \<or> (\<not> truthy (get m1 ''serverRules'') \<and> \<not> truthy (get m2 ''serverRules'')) \<Longrightarrow>
   metaRulesHtml eng m1 = metaRulesHtml eng m2"
  by (auto simp: metaRulesHtml_def Let_def)

text \<open>
  The page is a function of twelve properties of the metadata, each up to truthiness:
  two values that are both falsy give the same page.
\<close>

lemma render_online_cong:
  assumes nn: "m1 \<noteq> JNull" "m1 \<noteq> JUndefined" "m2 \<noteq> JNull" "m2 \<noteq> JUndefined"
    and same: "\<And>k. k \<in> set [''version'', ''description'', ''maintainerName'', ''maintainerEmail'',
                 ''inquiryUrl'', ''repositoryUrl'', ''iconUrl'', ''bannerUrl'', ''tosUrl'',
                 ''privacyPolicyUrl'', ''maxNoteTextLength'', ''serverRules''] \<Longrightarrow>
               get m1 k = get m2 k \<or> (\<not> truthy (get m1 k) \<and> \<not> truthy (get m2 k))"
  shows "render_online eng host m1 = render_online eng host m2"
proof -
  have v: "version (health_of host m1) = version (health_of host m2)"
    using same [of "''version''"] by (simp add: health_of_def js_or_cong)
  have d: "description (health_of host m1) = description (health_of host m2)"
    using same [of "''description''"] by (simp add: health_of_def js_or_cong)
  have a: "adminName (health_of host m1) = adminName (health_of host m2)"
    using same [of "''maintainerName''"] by (simp add: health_of_def js_or_cong)
  have e: "adminEmail (health_of host m1) = adminEmail (health_of host m2)"
    using same [of "''maintainerEmail''"] by (simp add: health_of_def js_or_cong)
  have c: "contactLink (health_of host m1) = contactLink (health_of host m2)"
    using same [of "''inquiryUrl''"] same [of "''repositoryUrl''"]
    by (simp add: health_of_def js_or_alias_cong)
  have h: "health_host (health_of host m1) = health_host (health_of host m2)"
    by (simp add: health_of_def)
  have parts: "descHtml eng (health_of host m1) = descHtml eng (health_of host m2)"
    "contactLinkHtml eng (health_of host m1) = contactLinkHtml eng (health_of host m2)"
    by (simp_all only: descHtml_def contactLinkHtml_def d c)
  have details: "metaIcon eng m1 = metaIcon eng m2" "metaBanner eng m1 = metaBanner eng m2"
    "metaTos eng m1 = metaTos eng m2" "metaPrivacy eng m1 = metaPrivacy eng m2"
    unfolding metaIcon_def metaBanner_def metaTos_def metaPrivacy_def
    using same [of "''iconUrl''"] same [of "''bannerUrl''"] same [of "''tosUrl''"]
      same [of "''privacyPolicyUrl''"]
    by (simp_all add: detail_link_cong)
  have more: "metaMaxLength eng m1 = metaMaxLength eng m2" "metaRulesHtml eng m1 = metaRulesHtml eng m2"
    using same [of "''maxNoteTextLength''"] same [of "''serverRules''"]
    by (simp_all add: metaMaxLength_cong metaRulesHtml_cong)
  show ?thesis
    unfolding render_online_def Let_def
    by (simp only: nn v a e h parts details more)
qed

lemma health_of_cong:
  assumes "\<And>k. get m1 k = get m2 k \<or> (\<not> truthy (get m1 k) \<and> \<not> truthy (get m2 k))"
  shows "health_of host m1 = health_of host m2"
  unfolding health_of_def
  using assms [of "''softwareName''"] assms [of "''name''"] assms [of "''version''"]
    assms [of "''description''"] assms [of "''maintainerName''"] assms [of "''maintainerEmail''"]
    assms [of "''inquiryUrl''"] assms [of "''repositoryUrl''"]
  by (simp add: js_or_cong js_or_alias_cong)

lemma get_without:
  "get (JObj (filter (\<lambda>kv. fst kv \<noteq> k) props)) k' =
     (if k' = k then JUndefined else get (JObj props) k')"
  by (induction props) auto

lemma get_first:
  "get (JObj ((k, v) # props)) k' = (if k' = k then v else get (JObj props) k')"
  by simp

lemma in_out_distinct:
  "x \<in> A \<Longrightarrow> y \<notin> A \<Longrightarrow> x \<noteq> y"
  by blast

text \<open>A property that is not among the twelve does not change the page.\<close>

lemma render_online_other:
  assumes "k \<notin> set [''version'', ''description'', ''maintainerName'', ''maintainerEmail'',
                 ''inquiryUrl'', ''repositoryUrl'', ''iconUrl'', ''bannerUrl'', ''tosUrl'',
                 ''privacyPolicyUrl'', ''maxNoteTextLength'', ''serverRules'']"
  shows "render_online eng host (JObj ((k, v) # props)) = render_online eng host (JObj props)"
proof (rule render_online_cong)
  fix k'
  assume "k' \<in> set [''version'', ''description'', ''maintainerName'', ''maintainerEmail'',
                 ''inquiryUrl'', ''repositoryUrl'', ''iconUrl'', ''bannerUrl'', ''tosUrl'',
                 ''privacyPolicyUrl'', ''maxNoteTextLength'', ''serverRules'']"
  from this assms have "k' \<noteq> k"
    by (rule in_out_distinct)
  then show "get (JObj ((k, v) # props)) k' = get (JObj props) k'
      \<or> (\<not> truthy (get (JObj ((k, v) # props)) k') \<and> \<not> truthy (get (JObj props) k'))"
    by (simp only: get_first if_False simp_thms)
qed simp_all

lemma replacement_no_F:
  "special c \<Longrightarrow> CHR ''F'' \<notin> set (replacement c)"
  by (auto simp: special_def replacement_def entities_def)

lemma replace_special_no_F:
  "CHR ''F'' \<notin> set s \<Longrightarrow> CHR ''F'' \<notin> set (replace_special s)"
  by (induction s) (simp_all add: replacement_no_F)

lemma render_foo_host:
  "render_online eng host foo_meta =
     Inr (''\<newline>      <p><strong>Host:</strong> '' @ replace_special host
          @ ''</p>\<newline>      <p><strong>Status:</strong> <span style=\"color:#7ee787;\">Online</span></p>''
          @ ''\<newline>      <p><strong>Description:</strong> N/A</p>''
          @ ''\<newline>      <p><strong>Version:</strong> 1.0</p>''
          @ ''\<newline>      <p><strong>Admin:</strong> N/A</p>''
          @ ''\<newline>      <p><strong>Email:</strong> N/A</p>''
          @ ''\<newline>      <p><strong>Contact:</strong> N/A</p>''
          @ ''\<newline>      ''
          @ ''\<newline>      <hr>''
          @ ''\<newline>      ''
          @ ''\<newline>      <p style=\"font-weight:bold; opacity: 0.8;\">--- Server Details (from /api/meta) ---</p>''
          @ ''\<newline>      ''
          @ ''\<newline>      ''
          @ ''\<newline>      ''
          @ ''\<newline>      ''
          @ ''\<newline>      ''
          @ ''\<newline>      ''
          @ ''\<newline>    '')"
  by (simp add: render_online_def foo_meta_def health_of_def js_or_def descHtml_def contactLinkHtml_def
      metaIcon_def metaBanner_def metaTos_def metaPrivacy_def detail_link_def metaMaxLength_def
      metaRulesHtml_def bind_result_def special_def)

text \<open>
  C5: the software name, computed as \<^verbatim>\<open>softwareName\<close> or else \<^verbatim>\<open>name\<close>, is kept in
  the \<^verbatim>\<open>health\<close> object and never reaches the markup: whatever value either property
  has, the page is the page of the metadata without it. For the metadata
  \<^verbatim>\<open>{softwareName: "Foo", version: "1.0"}\<close> the computed name is \<^verbatim>\<open>Foo\<close>, the page
  has the line \<^verbatim>\<open>Version: 1.0\<close>, and unless the host brings an \<^verbatim>\<open>F\<close> of its own the
  page does not contain \<^verbatim>\<open>Foo\<close>.
\<close>

theorem softwareName_not_rendered:
  "render_online eng host (JObj ((''softwareName'', v) # props)) = render_online eng host (JObj props)
   \<and> render_online eng host (JObj ((''name'', v) # props)) = render_online eng host (JObj props)
   \<and> softwareName (health_of host foo_meta) = JStr ''Foo''
   \<and> (\<exists>pre post. render_online eng host foo_meta =
          Inr (pre @ ''<p><strong>Version:</strong> 1.0</p>'' @ post))
   \<and> (CHR ''F'' \<notin> set host \<longrightarrow>
        (\<forall>html. render_online eng host foo_meta = Inr html \<longrightarrow> \<not> sublist ''Foo'' html))"
proof (intro conjI impI allI)
  show "render_online eng host (JObj ((''softwareName'', v) # props)) = render_online eng host (JObj props)"
    by (rule render_online_other) simp
  show "render_online eng host (JObj ((''name'', v) # props)) = render_online eng host (JObj props)"
    by (rule render_online_other) simp
  show "softwareName (health_of host foo_meta) = JStr ''Foo''"
    by (simp add: health_of_def foo_meta_def js_or_def)
  show "\<exists>pre post. render_online eng host foo_meta =
          Inr (pre @ ''<p><strong>Version:</strong> 1.0</p>'' @ post)"
    unfolding render_foo_host
    by (rule exI [of _ "''\<newline>      <p><strong>Host:</strong> '' @ replace_special host
          @ ''</p>\<newline>      <p><strong>Status:</strong> <span style=\"color:#7ee787;\">Online</span></p>''
          @ ''\<newline>      <p><strong>Description:</strong> N/A</p>''
          @ ''\<newline>      ''"],
        rule exI [of _ "''\<newline>      <p><strong>Admin:</strong> N/A</p>''
          @ ''\<newline>      <p><strong>Email:</strong> N/A</p>''
          @ ''\<newline>      <p><strong>Contact:</strong> N/A</p>''
          @ ''\<newline>      ''
          @ ''\<newline>      <hr>''
          @ ''\<newline>      ''
          @ ''\<newline>      <p style=\"font-weight:bold; opacity: 0.8;\">--- Server Details (from /api/meta) ---</p>''
          @ ''\<newline>      ''
          @ ''\<newline>      ''
          @ ''\<newline>      ''
          @ ''\<newline>      ''
          @ ''\<newline>      ''
          @ ''\<newline>      ''
          @ ''\<newline>    ''"]) simp
next
  fix html
  assume F: "CHR ''F'' \<notin> set host" and html: "render_online eng host foo_meta = Inr html"
  from F have "CHR ''F'' \<notin> set (replace_special host)"
    by (rule replace_special_no_F)
  with html have "CHR ''F'' \<notin> set html"
    unfolding render_foo_host by auto
  then show "\<not> sublist ''Foo'' html"
    using set_mono_sublist [of "''Foo''" html] by auto
qed

theorem softwareName_not_rendered_witness:
  "CHR ''F'' \<notin> set ''example.com''
   \<and> render_online v8 ''example.com'' foo_meta =
       Inr (page ''<p><strong>Description:</strong> N/A</p>'' ''1.0'' [])
   \<and> \<not> sublist ''Foo'' (page ''<p><strong>Description:</strong> N/A</p>'' ''1.0'' [])"
proof -
  have F: "CHR ''F'' \<notin> set ''example.com''"
    by simp
  from softwareName_not_rendered [of v8 "''example.com''" JNull "[]"] F render_foo [of v8]
  show ?thesis
    by (simp only: simp_thms)
qed

text \<open>
  C10: a property whose value is falsy (the empty string, 0, \<^verbatim>\<open>false\<close>,
  \<^verbatim>\<open>null\<close>) is read as a property that is not there: the \<^verbatim>\<open>health\<close> object and
  the page are those of the metadata without the property. So an empty
  \<^verbatim>\<open>softwareName\<close> gives the \<^verbatim>\<open>name\<close>, an empty \<^verbatim>\<open>inquiryUrl\<close> gives the
  \<^verbatim>\<open>repositoryUrl\<close>, an empty description or administrator name gives \<^verbatim>\<open>N/A\<close>,
  and a \<^verbatim>\<open>maxNoteTextLength\<close> of 0 gives no line in the details block.
\<close>

theorem falsy_property_as_absent:
  "(\<not> truthy v \<longrightarrow>
      health_of host (JObj ((k, v) # props)) = health_of host (JObj (filter (\<lambda>kv. fst kv \<noteq> k) props))
      \<and> render_online eng host (JObj ((k, v) # props)) =
          render_online eng host (JObj (filter (\<lambda>kv. fst kv \<noteq> k) props)))
   \<and> softwareName (health_of host (JObj ((''softwareName'', JStr []) # props))) =
       js_or (get (JObj props) ''name'') JNull
   \<and> contactLink (health_of host (JObj ((''inquiryUrl'', JStr []) # props))) =
       js_or (get (JObj props) ''repositoryUrl'') JNull
   \<and> descHtml eng (health_of host (JObj ((''description'', JStr []) # props))) =
       Inr ''<p><strong>Description:</strong> N/A</p>''
   \<and> escapeHTML eng (js_or (adminName (health_of host (JObj ((''maintainerName'', JStr []) # props))))
        (JStr ''N/A'')) = Inr ''N/A''
   \<and> metaMaxLength eng (JObj ((''maxNoteTextLength'', JNum 0) # props)) = Inr []"
proof (intro conjI impI)
  assume falsy: "\<not> truthy v"
  have same: "get (JObj ((k, v) # props)) k' = get (JObj (filter (\<lambda>kv. fst kv \<noteq> k) props)) k'
      \<or> (\<not> truthy (get (JObj ((k, v) # props)) k')
          \<and> \<not> truthy (get (JObj (filter (\<lambda>kv. fst kv \<noteq> k) props)) k'))" for k'
    using falsy by (simp only: get_first get_without truthy.simps split: if_splits) simp
  show "health_of host (JObj ((k, v) # props)) = health_of host (JObj (filter (\<lambda>kv. fst kv \<noteq> k) props))"
    by (rule health_of_cong) (rule same)
  show "render_online eng host (JObj ((k, v) # props)) =
          render_online eng host (JObj (filter (\<lambda>kv. fst kv \<noteq> k) props))"
    by (rule render_online_cong) (simp_all only: jsval.distinct not_False_eq_True same)
next
  show "softwareName (health_of host (JObj ((''softwareName'', JStr []) # props))) =
       js_or (get (JObj props) ''name'') JNull"
    by (simp add: health_of_def js_or_def)
  show "contactLink (health_of host (JObj ((''inquiryUrl'', JStr []) # props))) =
       js_or (get (JObj props) ''repositoryUrl'') JNull"
    by (simp add: health_of_def js_or_def)
  show "descHtml eng (health_of host (JObj ((''description'', JStr []) # props))) =
       Inr ''<p><strong>Description:</strong> N/A</p>''"
    by (simp add: health_of_def js_or_def descHtml_def)
  show "escapeHTML eng (js_or (adminName (health_of host (JObj ((''maintainerName'', JStr []) # props))))
        (JStr ''N/A'')) = Inr ''N/A''"
    by (simp add: health_of_def js_or_def special_def)
  show "metaMaxLength eng (JObj ((''maxNoteTextLength'', JNum 0) # props)) = Inr []"
    by (simp add: metaMaxLength_def)
qed

theorem falsy_property_as_absent_witness:
  "\<not> truthy (JNum 0)
   \<and> render_online v8 ''example.com''
        (JObj [(''maxNoteTextLength'', JNum 0), (''version'', JStr ''1.0''),
               (''maxNoteTextLength'', JNum 3000)])
      = render_online v8 ''example.com'' (JObj [(''version'', JStr ''1.0'')])
   \<and> health_of ''example.com''
        (JObj [(''maxNoteTextLength'', JNum 0), (''version'', JStr ''1.0''),
               (''maxNoteTextLength'', JNum 3000)])
      = health_of ''example.com'' (JObj [(''version'', JStr ''1.0'')])"
proof -
  have f: "\<not> truthy (JNum 0)"
    by simp
  from falsy_property_as_absent
    [of "JNum 0" "''example.com''" "''maxNoteTextLength''"
        "[(''version'', JStr ''1.0''), (''maxNoteTextLength'', JNum 3000)]" v8] f
  show ?thesis
    by simp
qed

end
